theory Spec2Isabelle
  imports Complex_Main
begin

section \<open>JavaScript values used by the explorer\<close>

text \<open>
  JavaScript numbers are modelled exactly: heights, counts, timestamps and smallest-unit
  amounts are \<open>int\<close>, every other number (coin amounts, rewards, difficulty, prices) is
  \<open>rat\<close>. \<open>Math.floor\<close> is \<open>floor\<close>, \<open>Math.ceil\<close> is \<open>ceiling\<close>, and
  \<open>Math.round\<close> rounds a half towards plus infinity.  Rounding errors of IEEE doubles
  and \<open>NaN\<close> are outside the model; integers are taken in the range that a double
  represents exactly.
\<close>

definition Math_round :: "rat \<Rightarrow> int" where
  "Math_round x = floor (x + 1 / 2)"

text \<open>
  Where the program leaves the finite range of the doubles the model follows it.
  \<open>Math.pow(2, n)\<close> is the exact power for \<open>-1074 \<le> n \<le> 1023\<close>, \<open>Infinity\<close> from
  \<open>n = 1024\<close>, and \<open>0\<close> below \<open>-1074\<close>.
\<close>

datatype number = Finite rat | Infinity

definition Math_pow2 :: "int \<Rightarrow> number" where
  "Math_pow2 n =
     (if 1024 \<le> n then Infinity else if n < - 1074 then Finite 0 else Finite (2 powi n))"

text \<open>
  \<open>a / x\<close> for a positive integer \<open>a\<close> and a power of two \<open>x\<close>: \<open>0\<close> when \<open>x\<close> is
  \<open>Infinity\<close>, \<open>Infinity\<close> when \<open>x\<close> is \<open>0\<close> or the quotient is too large for a double
  (\<open>2^1024 - 2^970\<close> and above round to \<open>Infinity\<close>), and else the exact quotient, which
  for \<open>a = 300\<close> is a double.
\<close>

definition divideBy :: "rat \<Rightarrow> number \<Rightarrow> number" where
  "divideBy a x =
     (case x of
        Infinity \<Rightarrow> Finite 0
      | Finite y \<Rightarrow>
          if y = 0 then Infinity
          else if 2 ^ 1024 - 2 ^ 970 \<le> a / y then Infinity
          else Finite (a / y))"

text \<open>\<open>a || b\<close> on numbers: \<open>0\<close> is falsy.\<close>

definition orElse :: "'a::zero \<Rightarrow> 'a \<Rightarrow> 'a" where
  "orElse a b = (if a = 0 then b else a)"

text \<open>Decimal digits of a non-negative integer, most significant first.\<close>

function decimal :: "int \<Rightarrow> string" where
  "decimal n = (if n < 10 then [char_of (48 + n)]
                else decimal (n div 10) @ [char_of (48 + n mod 10)])"
  by pat_completeness auto
termination
  by (relation "measure nat") auto

declare decimal.simps [simp del]

text \<open>
  \<open>Number.prototype.toFixed(6)\<close> as ECMAScript defines it for a finite number below
  \<open>10^21\<close>: the sign is split off, \<open>n\<close> is the integer nearest to \<open>x * 10^6\<close> (the
  larger one on a tie), its digits are padded with zeros to seven and the point is put
  before the last six.  (At \<open>10^21\<close> and above JavaScript switches to exponent notation,
  which this definition does not reproduce.)
\<close>

definition toFixed6 :: "rat \<Rightarrow> string" where
  "toFixed6 x =
     (let s = (if x < 0 then ''-'' else '''');
          n = floor (\<bar>x\<bar> * 1000000 + 1 / 2);
          m = decimal n;
          m' = (if length m \<le> 6 then replicate (7 - length m) (CHR ''0'') @ m else m);
          k = length m'
      in s @ take (k - 6) m' @ ''.'' @ drop (k - 6) m')"

section \<open>The price cache (\<open>getADVCPrice\<close>)\<close>

text \<open>Cache duration in milliseconds (20 minutes).\<close>

definition CACHE_DURATION :: int where
  "CACHE_DURATION = 20 * 60 * 1000"

record PriceCache =
  price :: string
  timestamp :: int

text \<open>
  What the request to the price feed does when it is made: \<open>fetch\<close> rejects, the response
  is not \<open>ok\<close> (with its status), \<open>response.json()\<close> rejects, the JSON has no numeric
  \<open>quotes.USD.price\<close>, or it has one.
\<close>

datatype fetchResult =
    FetchRejects
  | NotOk nat
  | JsonRejects
  | InvalidFormat
  | UsdPrice rat

text \<open>
  The module variable \<open>priceCache\<close> is passed in and returned.  \<open>now\<close> is the clock read by
  the validity check, \<open>response\<close> what the feed answers if asked, \<open>now'\<close> the clock read when
  the cache is updated.  The third component records whether \<open>fetch\<close> was called; the
  source has no such variable, the model adds it to observe the request.
\<close>

definition getADVCPrice ::
  "PriceCache option \<Rightarrow> int \<Rightarrow> fetchResult \<Rightarrow> int \<Rightarrow> string \<times> PriceCache option \<times> bool" where
  "getADVCPrice priceCache now response now' =
     (case (case priceCache of
              Some c \<Rightarrow> if now - timestamp c < CACHE_DURATION then Some (price c) else None
            | None \<Rightarrow> None) of
        Some p \<Rightarrow> (p, priceCache, False)
      | None \<Rightarrow>
          (case response of
             UsdPrice q \<Rightarrow>
               (let priceStr = toFixed6 q
                in (priceStr, Some \<lparr>price = priceStr, timestamp = now'\<rparr>, True))
           | _ \<Rightarrow>
               (case priceCache of
                  Some c \<Rightarrow> (price c, priceCache, True)
                | None \<Rightarrow> (''0.000000'', priceCache, True))))"

text \<open>
  A sequence of calls on one process: each call is its two clock readings and the feed's
  answer; the results are the returned strings in order and the cache left behind.
\<close>

fun getADVCPrice_calls ::
  "PriceCache option \<Rightarrow> (int \<times> fetchResult \<times> int) list \<Rightarrow> string list \<times> PriceCache option" where
  "getADVCPrice_calls priceCache [] = ([], priceCache)"
| "getADVCPrice_calls priceCache ((now, response, now') # cs) =
     (case getADVCPrice priceCache now response now' of
        (p, priceCache', _) \<Rightarrow>
          (case getADVCPrice_calls priceCache' cs of
             (ps, final) \<Rightarrow> (p # ps, final)))"

text \<open>The strings a sequence of feed answers can put into the cache.\<close>

fun fetchedPrices :: "(int \<times> fetchResult \<times> int) list \<Rightarrow> string list" where
  "fetchedPrices [] = []"
| "fetchedPrices ((now, UsdPrice q, now') # cs) = toFixed6 q # fetchedPrices cs"
| "fetchedPrices (c # cs) = fetchedPrices cs"

section \<open>Storage and node\<close>

text \<open>
  Everything that can go wrong while a view is computed is a value: a rejected storage
  call, a rejected RPC call (\<open>rpcCall\<close> rethrows every failure), and the \<open>TypeError\<close> of
  reading a property of \<open>null\<close> or \<open>undefined\<close>.  A function of the source that can throw
  returns \<open>error + 'a\<close>, with \<open>Inl\<close> for the exception that reaches its caller.
\<close>

datatype error = StorageError | RpcError | TypeError

definition andThen :: "error + 'a \<Rightarrow> ('a \<Rightarrow> error + 'b) \<Rightarrow> error + 'b" where
  "andThen m f = (case m of Inl e \<Rightarrow> Inl e | Inr x \<Rightarrow> f x)"

text \<open>\<open>try { body } catch (error) { handler }\<close>, where the handler returns a value.\<close>

definition tryCatch :: "error + 'a \<Rightarrow> 'a \<Rightarrow> 'a" where
  "tryCatch body handler = (case body of Inl e \<Rightarrow> handler | Inr x \<Rightarrow> x)"

subsection \<open>Stored documents\<close>

text \<open>
  The collections the explorer reads.  Several collections use the same field names
  (\<open>txid\<close>, \<open>blockindex\<close>, \<open>timestamp\<close>); a prefix tells them apart here: \<open>nh_\<close> for
  \<open>networkhistories\<close>, \<open>b_\<close> for \<open>blocks\<close>, \<open>a_\<close> for \<open>addresstxes\<close>, \<open>mp_\<close> for
  \<open>mempool\<close>, \<open>st_\<close> for \<open>mempoolstats\<close>, \<open>cs_\<close> for two fields of \<open>coinstats\<close>.
  An input or output of a stored transaction has one address string (\<open>"coinbase"\<close>
  marks the reward input) and an amount in the smallest unit.
\<close>

record TxIO =
  addresses :: string
  amount :: int

record TransactionRecord =
  txid :: string
  blockhash :: string
  blockindex :: int
  tx_timestamp :: int
  vin :: "TxIO list"
  vout :: "TxIO list"

record NetworkHistory =
  nh_blockindex :: int
  nh_timestamp :: int
  difficulty_pow :: rat
  difficulty_pos :: rat
  nethash :: rat

record CoinStats =
  count :: int
  cs_supply :: rat
  cs_txes :: int
  connections :: int

record BlockDoc =
  b_height :: int
  b_hash :: string
  b_difficulty :: rat
  b_timestamp :: int

record AddressTx =
  a_id :: string
  a_txid :: string
  a_blockindex :: int
  a_amount :: int

record MempoolTx =
  mp_txid :: string
  mp_size :: int
  mp_time :: int
  mp_fee :: rat

record MempoolStats =
  st_size :: int
  st_bytes :: int
  st_usage :: int

text \<open>
  The database: each collection in stored order, and the names of the collections whose
  reads are rejected (an unreachable server, a dropped connection).  The connection
  itself (\<open>connectToDatabase\<close>, not part of these sources) is an argument of every view:
  \<open>Inl\<close> when it is rejected.
\<close>

record Database =
  col_txes :: "TransactionRecord list"
  col_networkhistories :: "NetworkHistory list"
  col_coinstats :: "CoinStats list"
  col_blocks :: "BlockDoc list"
  col_addresstxes :: "AddressTx list"
  col_mempool :: "MempoolTx list"
  col_mempoolstats :: "MempoolStats list"
  rejected :: "string list"

definition collection :: "Database \<Rightarrow> string \<Rightarrow> (Database \<Rightarrow> 'a list) \<Rightarrow> error + 'a list" where
  "collection db name docs =
     (if name \<in> set (rejected db) then Inl StorageError else Inr (docs db))"

subsection \<open>Queries\<close>

text \<open>
  \<open>sort({k: 1})\<close> and \<open>sort({k: -1})\<close>, and JavaScript's \<open>Array.prototype.sort\<close> with a
  difference comparator.  The model's sorts are stable: documents with equal keys keep
  their order (MongoDB leaves that order open).
\<close>

definition sortAsc :: "('a \<Rightarrow> int) \<Rightarrow> 'a list \<Rightarrow> 'a list" where
  "sortAsc k xs = sort_key k xs"

definition sortDesc :: "('a \<Rightarrow> int) \<Rightarrow> 'a list \<Rightarrow> 'a list" where
  "sortDesc k xs = sort_key (\<lambda>x. - k x) xs"

text \<open>\<open>findOne\<close>: the first matching document of a cursor, \<open>null\<close> when there is none.\<close>

definition findOne :: "'a list \<Rightarrow> 'a option" where
  "findOne xs = (case xs of [] \<Rightarrow> None | x # _ \<Rightarrow> Some x)"

text \<open>
  A cursor's \<open>skip(n)\<close> is rejected by the server for a negative \<open>n\<close>; its \<open>limit(n)\<close>
  means no limit for \<open>0\<close> and \<open>|n|\<close> for a negative \<open>n\<close>.  The pipeline stages
  \<open>$skip\<close> and \<open>$limit\<close> are stricter: \<open>$limit\<close> requires a positive number.
\<close>

definition cursor_skip :: "int \<Rightarrow> 'a list \<Rightarrow> error + 'a list" where
  "cursor_skip n xs = (if n < 0 then Inl StorageError else Inr (drop (nat n) xs))"

definition cursor_limit :: "int \<Rightarrow> 'a list \<Rightarrow> 'a list" where
  "cursor_limit n xs = (if n = 0 then xs else take (nat \<bar>n\<bar>) xs)"

definition stage_skip :: "int \<Rightarrow> 'a list \<Rightarrow> error + 'a list" where
  "stage_skip n xs = (if n < 0 then Inl StorageError else Inr (drop (nat n) xs))"

definition stage_limit :: "int \<Rightarrow> 'a list \<Rightarrow> error + 'a list" where
  "stage_limit n xs = (if n \<le> 0 then Inl StorageError else Inr (take (nat n) xs))"

text \<open>
  \<open>Math.ceil(totalCount / limit)\<close>.  With \<open>limit = 0\<close> JavaScript's quotient is
  \<open>Infinity\<close> or \<open>NaN\<close>, which is \<open>None\<close> here.
\<close>

definition ceilDiv :: "int \<Rightarrow> int \<Rightarrow> int option" where
  "ceilDiv totalCount limit =
     (if limit = 0 then None else Some (ceiling (rat_of_int totalCount / rat_of_int limit)))"

record Pagination =
  currentPage :: int
  totalPages :: "int option"
  totalItems :: int

text \<open>
  What a paginated view returns: \<open>{blocks, pagination}\<close> or
  \<open>{transactions, pagination}\<close>; \<open>items\<close> stands for the list under either name.
\<close>

record 'a Page =
  items :: "'a list"
  pagination :: Pagination

section \<open>Block reconstruction (\<open>getLatestBlocks\<close>, \<open>getPaginatedBlocks\<close>)\<close>

text \<open>
  The \<open>$group\<close> stage with \<open>_id: "$blockhash"\<close>: one group per block hash.  A group is
  its first document (the operand of every \<open>$first\<close>) and all its documents in arrival
  order (\<open>$push: "$$ROOT"\<close>).  The groups are listed in the order in which their hashes
  first arrive (MongoDB leaves the order of the groups open; the later sort by height
  decides it up to ties).
\<close>

function groupStage ::
  "TransactionRecord list \<Rightarrow> (TransactionRecord \<times> TransactionRecord list) list" where
  "groupStage [] = []"
| "groupStage (t # ts) =
     (t, t # filter (\<lambda>u. blockhash u = blockhash t) ts)
       # groupStage (filter (\<lambda>u. blockhash u \<noteq> blockhash t) ts)"
  by pat_completeness auto
termination
  by (relation "measure length") (auto simp: less_Suc_eq_le)

text \<open>\<open>{$arrayElemAt: [xs, 0]}\<close>: missing (\<open>None\<close>) for an empty or missing array.\<close>

definition arrayElemAt0 :: "'a list \<Rightarrow> 'a option" where
  "arrayElemAt0 xs = (case xs of [] \<Rightarrow> None | x # _ \<Rightarrow> Some x)"

text \<open>
  The \<open>$filter\<close> condition
  \<open>{$eq: [{$arrayElemAt: ["$$this.vin.addresses", 0]}, "coinbase"]}\<close>.
\<close>

definition coinbaseFirst :: "TransactionRecord \<Rightarrow> bool" where
  "coinbaseFirst t = (arrayElemAt0 (map addresses (vin t)) = Some ''coinbase'')"

text \<open>
  The \<open>$addFields\<close> stage: \<open>coinbaseTx\<close> is the first transaction of the group that
  passes the filter, \<open>minedBy\<close> the first of \<open>coinbaseTx.vout.addresses\<close>; a missing
  \<open>coinbaseTx\<close> or an empty \<open>vout\<close> leaves \<open>minedBy\<close> null.
\<close>

definition minedByOf :: "TransactionRecord list \<Rightarrow> string option" where
  "minedByOf transactions =
     (case arrayElemAt0 (filter coinbaseFirst transactions) of
        None \<Rightarrow> None
      | Some coinbaseTx \<Rightarrow> arrayElemAt0 (map addresses (vout coinbaseTx)))"

record DerivedBlock =
  d_id :: string
  height :: int
  hash :: string
  d_timestamp :: int
  txCount :: int
  minedBy :: "string option"

text \<open>A group after \<open>$group\<close>, \<open>$addFields\<close> and \<open>$project: {transactions: 0}\<close>.\<close>

definition derivedBlock :: "TransactionRecord \<times> TransactionRecord list \<Rightarrow> DerivedBlock" where
  "derivedBlock g =
     (case g of (first, transactions) \<Rightarrow>
        \<lparr>d_id = blockhash first,
         height = blockindex first,
         hash = blockhash first,
         d_timestamp = tx_timestamp first,
         txCount = int (length transactions),
         minedBy = minedByOf transactions\<rparr>)"

text \<open>
  The stages both listings share, from \<open>{$sort: {blockindex: -1}}\<close> to
  \<open>{$sort: {height: -1}}\<close>.
\<close>

definition blockStages :: "TransactionRecord list \<Rightarrow> DerivedBlock list" where
  "blockStages docs =
     sortDesc height (map derivedBlock (groupStage (sortDesc blockindex docs)))"

definition getLatestBlocks :: "error + Database \<Rightarrow> int \<Rightarrow> DerivedBlock list" where
  "getLatestBlocks conn limit =
     tryCatch
       (andThen conn (\<lambda>db.
        andThen (collection db ''txes'' col_txes) (\<lambda>docs.
        stage_limit limit (blockStages docs))))
       []"

text \<open>The connection is made before the \<open>try\<close>: its rejection reaches the caller.\<close>

definition getPaginatedBlocks ::
  "error + Database \<Rightarrow> int \<Rightarrow> int \<Rightarrow> error + DerivedBlock Page" where
  "getPaginatedBlocks conn page limit =
     andThen conn (\<lambda>db.
       Inr (tryCatch
         (let skip = (page - 1) * limit
          in andThen (collection db ''txes'' col_txes) (\<lambda>docs.
               let distinctBlockHashes = remdups (map blockhash docs);
                   totalCount = int (length distinctBlockHashes);
                   totalPages = ceilDiv totalCount limit
               in andThen (collection db ''txes'' col_txes) (\<lambda>docs'.
                  andThen (stage_skip skip (blockStages docs')) (\<lambda>skipped.
                  andThen (stage_limit limit skipped) (\<lambda>blocks.
                  Inr \<lparr>items = blocks,
                       pagination = \<lparr>currentPage = page, totalPages = totalPages,
                                     totalItems = totalCount\<rparr>\<rparr>)))))
         \<lparr>items = [],
          pagination = \<lparr>currentPage = page, totalPages = Some 1, totalItems = 0\<rparr>\<rparr>))"

section \<open>Transaction listing (\<open>getPaginatedTransactions\<close>)\<close>

text \<open>No \<open>try\<close> here: a rejected connection or read reaches the caller.\<close>

definition getPaginatedTransactions ::
  "error + Database \<Rightarrow> int \<Rightarrow> int \<Rightarrow> error + TransactionRecord Page" where
  "getPaginatedTransactions conn page limit =
     andThen conn (\<lambda>db.
     andThen (collection db ''txes'' col_txes) (\<lambda>docs.
       let totalCount = int (length docs);
           totalPages = ceilDiv totalCount limit;
           skip = (page - 1) * limit
       in andThen (collection db ''txes'' col_txes) (\<lambda>docs'.
          andThen (cursor_skip skip (sortDesc tx_timestamp docs')) (\<lambda>skipped.
          Inr \<lparr>items = cursor_limit limit skipped,
               pagination = \<lparr>currentPage = page, totalPages = totalPages,
                             totalItems = totalCount\<rparr>\<rparr>))))"

section \<open>Single block (\<open>getBlockByHash\<close>)\<close>

record Block =
  bl_hash :: string
  bl_height :: int
  previousblockhash :: "string option"
  bl_timestamp :: int
  bl_txCount :: int
  merkleroot :: string
  bl_difficulty :: rat
  nonce :: int
  bl_size :: int

text \<open>No \<open>try\<close> in this function: every rejection reaches the caller.\<close>

definition getBlockByHash :: "error + Database \<Rightarrow> string \<Rightarrow> error + Block option" where
  "getBlockByHash conn h =
     andThen conn (\<lambda>db.
     andThen (collection db ''txes'' col_txes) (\<lambda>docs.
       case filter (\<lambda>t. blockhash t = h) docs of
         [] \<Rightarrow> Inr None
       | first # others \<Rightarrow>
           (let transactions = first # others;
                blockHeight = blockindex first
            in andThen (collection db ''txes'' col_txes) (\<lambda>docs'.
                 let previousBlock =
                       findOne (sortDesc tx_timestamp
                                 (filter (\<lambda>t. blockindex t = blockHeight - 1) docs'));
                     block = \<lparr>bl_hash = h,
                              bl_height = blockHeight,
                              previousblockhash = map_option blockhash previousBlock,
                              bl_timestamp = tx_timestamp first,
                              bl_txCount = int (length transactions),
                              merkleroot = ''Not available in this data model'',
                              bl_difficulty = 0, nonce = 0, bl_size = 0\<rparr>
                 in andThen (collection db ''networkhistories'' col_networkhistories) (\<lambda>hs.
                      case findOne (sortDesc nh_blockindex
                                     (filter (\<lambda>n. nh_blockindex n \<le> blockHeight) hs)) of
                        None \<Rightarrow> Inr (Some block)
                      | Some networkHistory \<Rightarrow>
                          Inr (Some (block\<lparr>bl_difficulty := difficulty_pow networkHistory\<rparr>)))))))"

section \<open>The node's RPC interface\<close>

text \<open>
  \<open>rpcCall(method, params)\<close> returns the node's result or throws.  The node is modelled
  by what it answers to each method the explorer calls (\<open>Inl\<close> when the call throws, a
  \<open>None\<close> result for \<open>null\<close>).  A verbose raw transaction lists
  inputs (a \<open>coinbase\<close> field, or the \<open>txid\<close> and output index \<open>vout\<close> being spent) and
  outputs (\<open>value\<close> in coins and a \<open>scriptPubKey\<close> whose \<open>addresses\<close> may be absent).
  Optional JSON fields are \<open>option\<close>s.
\<close>

record ScriptPubKey =
  spk_addresses :: "string list option"

record RawOut =
  out_value :: rat
  scriptPubKey :: "ScriptPubKey option"

record RawIn =
  coinbase :: "string option"
  in_txid :: "string option"
  in_vout :: int

record RawTx =
  raw_txid :: string
  raw_vin :: "RawIn list option"
  raw_vout :: "RawOut list option"

record RawMempoolInfo =
  info_size :: "int option"
  info_time :: "int option"
  info_fee :: "rat option"

record MiningInfo =
  mi_difficulty :: rat

record Node =
  getmininginfo :: "error + MiningInfo option"
  getnetworkhashps :: "error + rat"
  getmempoolinfo :: "error + MempoolStats"
  getrawmempool :: "error + (string \<times> RawMempoolInfo) list option"
  getrawtransaction :: "string \<Rightarrow> error + RawTx option"

text \<open>A string is truthy when it is present and not empty.\<close>

definition truthy :: "string option \<Rightarrow> bool" where
  "truthy s = (case s of None \<Rightarrow> False | Some v \<Rightarrow> v \<noteq> [])"

text \<open>The helper \<open>getRawTransaction\<close>: a failed call is logged and gives \<open>null\<close>.\<close>

definition getRawTransaction :: "Node \<Rightarrow> string \<Rightarrow> RawTx option" where
  "getRawTransaction node t = tryCatch (getrawtransaction node t) None"

section \<open>Mining statistics and the halving schedule (\<open>getMiningStats\<close>)\<close>

record HalvingEntry =
  halving :: int
  hv_height :: int
  reward :: rat
  hv_supply :: int
  date :: string
  status :: string

record SpecialBlock =
  sb_height :: int
  sb_reward :: int
  description :: string
  sb_hash :: "string option"

record MiningStats =
  ms_blocks :: int
  ms_difficulty :: rat
  networkhashps :: rat
  currentReward :: number
  nextHalvingHeight :: int
  blocksUntilHalving :: int
  daysUntilHalving :: rat
  halvingSchedule :: "HalvingEntry list"
  maxSupply :: int
  currentSupply :: rat
  blockTime :: int
  retargetInterval :: int
  specialBlocks :: "SpecialBlock list"

text \<open>
  The literal table of the source; the rewards \<open>37.5\<close>, \<open>18.75\<close>, ... are written as
  fractions.
\<close>

definition halvingScheduleTable :: "int \<Rightarrow> int \<Rightarrow> HalvingEntry list" where
  "halvingScheduleTable currentHalvingCycle currentBlock =
      [\<lparr>halving = 0, hv_height = 0, reward = 300, hv_supply = 0, date = ''Apr 2025'',
        status = (if currentHalvingCycle = 0 then ''active'' else ''past'')\<rparr>,
       \<lparr>halving = 1, hv_height = 300000, reward = 150, hv_supply = 135000000, date = ''Jan 2027'',
        status = (if currentHalvingCycle = 1 then ''active''
                  else if currentBlock \<ge> 300000 then ''past'' else ''future'')\<rparr>,
       \<lparr>halving = 2, hv_height = 600000, reward = 75, hv_supply = 157500000, date = ''Oct 2028'',
        status = (if currentHalvingCycle = 2 then ''active''
                  else if currentBlock \<ge> 600000 then ''past'' else ''future'')\<rparr>,
       \<lparr>halving = 3, hv_height = 900000, reward = 75 / 2, hv_supply = 168750000, date = ''Jun 2030'',
        status = (if currentHalvingCycle = 3 then ''active''
                  else if currentBlock \<ge> 900000 then ''past'' else ''future'')\<rparr>,
       \<lparr>halving = 4, hv_height = 1200000, reward = 75 / 4, hv_supply = 174375000, date = ''Mar 2032'',
        status = (if currentHalvingCycle = 4 then ''active''
                  else if currentBlock \<ge> 1200000 then ''past'' else ''future'')\<rparr>,
       \<lparr>halving = 5, hv_height = 1500000, reward = 75 / 8, hv_supply = 177187500, date = ''Nov 2033'',
        status = (if currentHalvingCycle = 5 then ''active''
                  else if currentBlock \<ge> 1500000 then ''past'' else ''future'')\<rparr>,
       \<lparr>halving = 6, hv_height = 1800000, reward = 75 / 16, hv_supply = 178593750, date = ''Aug 2035'',
        status = (if currentHalvingCycle = 6 then ''active''
                  else if currentBlock \<ge> 1800000 then ''past'' else ''future'')\<rparr>,
       \<lparr>halving = 7, hv_height = 2100000, reward = 75 / 32, hv_supply = 179296875, date = ''Apr 2037'',
        status = (if currentHalvingCycle = 7 then ''active''
                  else if currentBlock \<ge> 2100000 then ''past'' else ''future'')\<rparr>,
       \<lparr>halving = 8, hv_height = 2400000, reward = 75 / 64, hv_supply = 179296875, date = ''Jan 2039'',
        status = (if currentHalvingCycle = 8 then ''active''
                  else if currentBlock \<ge> 2400000 then ''past'' else ''future'')\<rparr>,
       \<lparr>halving = 9, hv_height = 2700000, reward = 75 / 128, hv_supply = 179912109, date = ''Oct 2040'',
        status = (if currentHalvingCycle = 9 then ''active''
                  else if currentBlock \<ge> 2700000 then ''past'' else ''future'')\<rparr>,
       \<lparr>halving = 10, hv_height = 3000000, reward = 75 / 256, hv_supply = 179912109, date = ''May 2042'',
        status = (if currentHalvingCycle = 10 then ''active''
                  else if currentBlock \<ge> 3000000 then ''past'' else ''future'')\<rparr>]"

text \<open>
  Difficulty and hash rate: the stored values, replaced by the node's when it answers.
  An exception of the second call leaves the difficulty of the first in place.
\<close>

definition liveMiningInfo :: "Node \<Rightarrow> rat \<Rightarrow> rat \<Rightarrow> rat \<times> rat" where
  "liveMiningInfo node difficulty hashrate =
     (case getmininginfo node of
        Inl e \<Rightarrow> (difficulty, hashrate)
      | Inr None \<Rightarrow> (difficulty, hashrate)
      | Inr (Some miningInfo) \<Rightarrow>
          (let difficulty' = orElse (mi_difficulty miningInfo) difficulty
           in case getnetworkhashps node of
                Inl e \<Rightarrow> (difficulty', hashrate)
              | Inr hashps \<Rightarrow>
                  (difficulty', if hashps \<noteq> 0 then hashps / 1000 else hashrate)))"

text \<open>The hashes of the special blocks: one lookup per height, all inside one \<open>try\<close>.\<close>

definition specialBlockHashes :: "Database \<Rightarrow> SpecialBlock list \<Rightarrow> SpecialBlock list" where
  "specialBlockHashes db specials =
     tryCatch
       (andThen (collection db ''txes'' col_txes) (\<lambda>docs.
          Inr (map (\<lambda>sb. case findOne (filter (\<lambda>t. blockindex t = sb_height sb) docs) of
                            None \<Rightarrow> sb
                          | Some tx \<Rightarrow> sb\<lparr>sb_hash := Some (blockhash tx)\<rparr>)
                   specials)))
       specials"

text \<open>
  No \<open>try\<close> around the storage reads, and \<open>coinStats.count\<close> is read without a check:
  with no \<open>coinstats\<close> document \<open>findOne\<close> gives \<open>null\<close> and the read throws a
  \<open>TypeError\<close>.
\<close>

definition getMiningStats :: "error + Database \<Rightarrow> Node \<Rightarrow> error + MiningStats" where
  "getMiningStats conn node =
     andThen conn (\<lambda>db.
     andThen (collection db ''coinstats'' col_coinstats) (\<lambda>cs.
       case findOne cs of
         None \<Rightarrow> Inl TypeError
       | Some coinStats \<Rightarrow>
           andThen (collection db ''networkhistories'' col_networkhistories) (\<lambda>hs.
             let currentBlock = count coinStats;
                 latestNetworkHistory = findOne (sortDesc nh_timestamp hs);
                 difficulty0 = (case latestNetworkHistory of
                                  None \<Rightarrow> 0 | Some n \<Rightarrow> orElse (difficulty_pow n) 0);
                 networkhashps0 = (case latestNetworkHistory of
                                     None \<Rightarrow> 0 | Some n \<Rightarrow> orElse (nethash n) 0) / 1000;
                 live = liveMiningInfo node difficulty0 networkhashps0;
                 blockReward = 300;
                 halvingInterval = 300000;
                 blockTime' = 180;
                 maxSupply' = 180000000;
                 currentHalvingCycle =
                   floor (rat_of_int currentBlock / rat_of_int halvingInterval);
                 currentReward' = divideBy blockReward (Math_pow2 currentHalvingCycle);
                 nextHalvingHeight' = (currentHalvingCycle + 1) * halvingInterval;
                 blocksUntilHalving' = nextHalvingHeight' - currentBlock;
                 daysUntilHalving' =
                   rat_of_int (blocksUntilHalving' * blockTime') / (60 * 60 * 24);
                 specialBlocks' =
                   specialBlockHashes db
                     [\<lparr>sb_height = 1, sb_reward = 0, description = ''Relaunch distribution'',
                       sb_hash = None\<rparr>,
                      \<lparr>sb_height = 2, sb_reward = 0, description = ''Relaunch distribution'',
                       sb_hash = None\<rparr>,
                      \<lparr>sb_height = 3, sb_reward = 0, description = ''Relaunch distribution'',
                       sb_hash = None\<rparr>]
             in Inr \<lparr>ms_blocks = currentBlock,
                     ms_difficulty = fst live,
                     networkhashps = snd live,
                     currentReward = currentReward',
                     nextHalvingHeight = nextHalvingHeight',
                     blocksUntilHalving = blocksUntilHalving',
                     daysUntilHalving = daysUntilHalving',
                     halvingSchedule = halvingScheduleTable currentHalvingCycle currentBlock,
                     maxSupply = maxSupply',
                     currentSupply = cs_supply coinStats,
                     blockTime = blockTime',
                     retargetInterval = 3,
                     specialBlocks = specialBlocks'\<rparr>)))"

section \<open>Mempool enrichment (\<open>getMempoolTransactions\<close>)\<close>

record EnrichedTx =
  e_txid :: string
  e_size :: int
  e_time :: int
  e_fee :: rat
  e_vin :: "TxIO list"
  e_vout :: "TxIO list"
  e_total :: int
  e_value :: rat

record MempoolView =
  mv_transactions :: "EnrichedTx list"
  mv_stats :: MempoolStats

text \<open>
  The loop over \<open>rawTx.vout\<close>: an output is pushed, and its amount added to the total,
  only when \<open>output.scriptPubKey?.addresses || []\<close> is not empty.  The state of the loop
  is the pair of \<open>vout\<close> and \<open>totalValue\<close>.
\<close>

fun mempoolOutputs :: "RawOut list \<Rightarrow> TxIO list \<times> int \<Rightarrow> TxIO list \<times> int" where
  "mempoolOutputs [] acc = acc"
| "mempoolOutputs (output # outputs) (vout', totalValue) =
     (let addrs = (case scriptPubKey output of
                     None \<Rightarrow> []
                   | Some spk \<Rightarrow> (case spk_addresses spk of None \<Rightarrow> [] | Some a \<Rightarrow> a));
          amount' = Math_round (orElse (out_value output) 0 * 100000000)
      in case addrs of
           [] \<Rightarrow> mempoolOutputs outputs (vout', totalValue)
         | a # _ \<Rightarrow>
             mempoolOutputs outputs
               (vout' @ [\<lparr>addresses = a, amount = amount'\<rparr>], totalValue + amount'))"

text \<open>The loop over \<open>rawTx.vin\<close>: previous outputs are not looked up here.\<close>

fun mempoolInputs :: "RawIn list \<Rightarrow> TxIO list" where
  "mempoolInputs [] = []"
| "mempoolInputs (input # inputs) =
     (if truthy (coinbase input) then \<lparr>addresses = ''coinbase'', amount = 0\<rparr> # mempoolInputs inputs
      else if truthy (in_txid input) then \<lparr>addresses = ''input'', amount = 0\<rparr> # mempoolInputs inputs
      else mempoolInputs inputs)"

text \<open>
  The body of the enrichment loop for one mempool entry.  Without a raw transaction
  (and in the \<open>catch\<close> of the body) the entry is kept with empty lists and zeros.
\<close>

definition enrichTransaction :: "Node \<Rightarrow> MempoolTx \<Rightarrow> EnrichedTx" where
  "enrichTransaction node tx =
     (case getRawTransaction node (mp_txid tx) of
        Some rawTx \<Rightarrow>
          (let outs = (case raw_vout rawTx of
                         None \<Rightarrow> ([], 0) | Some outputs \<Rightarrow> mempoolOutputs outputs ([], 0));
               vin' = (case raw_vin rawTx of None \<Rightarrow> [] | Some inputs \<Rightarrow> mempoolInputs inputs);
               totalValue = snd outs
           in \<lparr>e_txid = mp_txid tx, e_size = mp_size tx, e_time = mp_time tx, e_fee = mp_fee tx,
               e_vin = vin', e_vout = fst outs,
               e_total = totalValue,
               e_value = rat_of_int totalValue / 180000000\<rparr>)
      | None \<Rightarrow>
          \<lparr>e_txid = mp_txid tx, e_size = mp_size tx, e_time = mp_time tx, e_fee = mp_fee tx,
           e_vin = [], e_vout = [], e_total = 0, e_value = 0\<rparr>)"

text \<open>
  An entry of \<open>getrawmempool\<close> as a transaction: defaults for absent fields, then the
  entry's own fields (\<open>...info\<close>).  \<open>now\<close> is \<open>Date.now()\<close> in milliseconds.
\<close>

definition rpcTransaction :: "int \<Rightarrow> string \<times> RawMempoolInfo \<Rightarrow> MempoolTx" where
  "rpcTransaction now entry =
     (case entry of (t, info) \<Rightarrow>
        \<lparr>mp_txid = t,
         mp_size = (case info_size info of None \<Rightarrow> 0 | Some v \<Rightarrow> v),
         mp_time = (case info_time info of
                      None \<Rightarrow> floor (rat_of_int now / 1000) | Some v \<Rightarrow> v),
         mp_fee = (case info_fee info of None \<Rightarrow> 0 | Some v \<Rightarrow> v)\<rparr>)"

text \<open>
  The node's view of the mempool, when it answers: the statistics are updated before the
  second call, so they stay updated when that call throws.
\<close>

definition liveMempool ::
  "Node \<Rightarrow> int \<Rightarrow> MempoolTx list \<Rightarrow> MempoolStats \<Rightarrow> MempoolTx list \<times> MempoolStats" where
  "liveMempool node now dbTransactions stats =
     (case getmempoolinfo node of
        Inl e \<Rightarrow> (dbTransactions, stats)
      | Inr mempoolInfo \<Rightarrow>
          (let stats' = \<lparr>st_size = orElse (st_size mempoolInfo) (orElse (st_size stats) 0),
                         st_bytes = orElse (st_bytes mempoolInfo) (orElse (st_bytes stats) 0),
                         st_usage = orElse (st_usage mempoolInfo) (orElse (st_usage stats) 0)\<rparr>
           in case getrawmempool node of
                Inl e \<Rightarrow> (dbTransactions, stats')
              | Inr None \<Rightarrow> (dbTransactions, stats')
              | Inr (Some rawMempool) \<Rightarrow>
                  (let rpcTransactions = map (rpcTransaction now) rawMempool
                   in (if length rpcTransactions > 0 then rpcTransactions else dbTransactions,
                       stats'))))"

text \<open>
  The final \<open>map\<close>: a zero \<open>time\<close> is replaced by the clock; \<open>tx.txid || ""\<close> and
  \<open>tx.size || 0\<close> leave a string and a number as they are.
\<close>

definition requiredFields :: "int \<Rightarrow> EnrichedTx \<Rightarrow> EnrichedTx" where
  "requiredFields now tx =
     tx\<lparr>e_time := (if e_time tx = 0 then floor (rat_of_int now / 1000) else e_time tx)\<rparr>"

definition getMempoolTransactions ::
  "error + Database \<Rightarrow> Node \<Rightarrow> int \<Rightarrow> error + MempoolView" where
  "getMempoolTransactions conn node now =
     andThen conn (\<lambda>db.
       Inr (tryCatch
         (andThen (collection db ''mempool'' col_mempool) (\<lambda>docs.
          andThen (collection db ''mempoolstats'' col_mempoolstats) (\<lambda>statdocs.
            let dbTransactions = sortDesc mp_time docs;
                stats0 = (case findOne statdocs of
                            None \<Rightarrow> \<lparr>st_size = 0, st_bytes = 0, st_usage = 0\<rparr>
                          | Some st \<Rightarrow> st);
                live = liveMempool node now dbTransactions stats0;
                transactions = fst live;
                enrichedTransactions = map (enrichTransaction node) (take 20 transactions);
                finalTransactions = map (requiredFields now) enrichedTransactions
            in Inr \<lparr>mv_transactions = finalTransactions, mv_stats = snd live\<rparr>)))
         \<lparr>mv_transactions = [],
          mv_stats = \<lparr>st_size = 0, st_bytes = 0, st_usage = 0\<rparr>\<rparr>))"

section \<open>Transaction detail (\<open>getTransactionById\<close>)\<close>

record ProcessedTx =
  p_txid :: string
  p_timestamp :: int
  p_vin :: "TxIO list"
  p_vout :: "TxIO list"
  p_total :: int
  isPending :: bool

datatype TransactionDetail = Confirmed TransactionRecord | Pending ProcessedTx

text \<open>\<open>prevTx && prevTx.vout && prevTx.vout[input.vout]\<close>: falsy outside the array.\<close>

definition prevOutputAt :: "RawTx option \<Rightarrow> int \<Rightarrow> RawOut option" where
  "prevOutputAt prevTx i =
     (case prevTx of
        None \<Rightarrow> None
      | Some p \<Rightarrow>
          (case raw_vout p of
             None \<Rightarrow> None
           | Some outs \<Rightarrow> if 0 \<le> i \<and> nat i < length outs then Some (outs ! nat i) else None))"

text \<open>
  The loop over the inputs.  Reading \<open>addresses\<close> of a missing \<open>scriptPubKey\<close> throws
  inside the inner \<open>try\<close>, whose \<open>catch\<close> pushes the \<open>"unknown"\<close> placeholder.
\<close>

fun detailInputs :: "Node \<Rightarrow> RawIn list \<Rightarrow> TxIO list" where
  "detailInputs node [] = []"
| "detailInputs node (input # inputs) =
     (if truthy (coinbase input) then [\<lparr>addresses = ''coinbase'', amount = 0\<rparr>]
      else
        (case in_txid input of
           None \<Rightarrow> []
         | Some prevId \<Rightarrow>
             if prevId = [] then []
             else
               (case prevOutputAt (getRawTransaction node prevId) (in_vout input) of
                  None \<Rightarrow> []
                | Some prevOutput \<Rightarrow>
                    (case scriptPubKey prevOutput of
                       None \<Rightarrow> [\<lparr>addresses = ''unknown'', amount = 0\<rparr>]
                     | Some spk \<Rightarrow>
                         (let addrs = (case spk_addresses spk of None \<Rightarrow> [] | Some a \<Rightarrow> a);
                              amount' = Math_round (out_value prevOutput * 100000000)
                          in case addrs of
                               [] \<Rightarrow> []
                             | a # _ \<Rightarrow> [\<lparr>addresses = a, amount = amount'\<rparr>])))))
     @ detailInputs node inputs"

text \<open>
  The loop over the outputs.  Here \<open>output.scriptPubKey.addresses\<close> is read without
  \<open>?.\<close>: an output without \<open>scriptPubKey\<close> throws, and the exception leaves the loop.
\<close>

fun detailOutputs :: "RawOut list \<Rightarrow> TxIO list \<times> int \<Rightarrow> error + TxIO list \<times> int" where
  "detailOutputs [] acc = Inr acc"
| "detailOutputs (output # outputs) (vout', total') =
     (case scriptPubKey output of
        None \<Rightarrow> Inl TypeError
      | Some spk \<Rightarrow>
          (let addrs = (case spk_addresses spk of None \<Rightarrow> [] | Some a \<Rightarrow> a);
               amount' = Math_round (out_value output * 100000000)
           in case addrs of
                [] \<Rightarrow> detailOutputs outputs (vout', total')
              | a # _ \<Rightarrow>
                  detailOutputs outputs
                    (vout' @ [\<lparr>addresses = a, amount = amount'\<rparr>], total' + amount')))"

text \<open>
  The storage reads are outside every \<open>try\<close>.  The enrichment of a mempool transaction
  is inside one: when it throws, or the node has no raw transaction, the bare entry is
  returned.
\<close>

definition getTransactionById ::
  "error + Database \<Rightarrow> Node \<Rightarrow> string \<Rightarrow> error + TransactionDetail option" where
  "getTransactionById conn node t =
     andThen conn (\<lambda>db.
     andThen (collection db ''txes'' col_txes) (\<lambda>docs.
       case findOne (filter (\<lambda>d. txid d = t) docs) of
         Some transaction \<Rightarrow> Inr (Some (Confirmed transaction))
       | None \<Rightarrow>
           andThen (collection db ''mempool'' col_mempool) (\<lambda>mdocs.
             case findOne (filter (\<lambda>m. mp_txid m = t) mdocs) of
               None \<Rightarrow> Inr None
             | Some mempoolTx \<Rightarrow>
                 (let attempt =
                        tryCatch
                          (case getRawTransaction node t of
                             None \<Rightarrow> Inr None
                           | Some rawTx \<Rightarrow>
                               (let vin' = (case raw_vin rawTx of
                                              None \<Rightarrow> []
                                            | Some inputs \<Rightarrow> detailInputs node inputs)
                                in andThen (case raw_vout rawTx of
                                              None \<Rightarrow> Inr ([], 0)
                                            | Some outputs \<Rightarrow> detailOutputs outputs ([], 0))
                                     (\<lambda>outs.
                                        Inr (Some \<lparr>p_txid = raw_txid rawTx,
                                                   p_timestamp = mp_time mempoolTx,
                                                   p_vin = vin',
                                                   p_vout = fst outs,
                                                   p_total = snd outs,
                                                   isPending = True\<rparr>))))
                          None
                  in case attempt of
                       Some processedTx \<Rightarrow> Inr (Some (Pending processedTx))
                     | None \<Rightarrow>
                         Inr (Some (Pending \<lparr>p_txid = mp_txid mempoolTx,
                                            p_timestamp = mp_time mempoolTx,
                                            p_vin = [], p_vout = [], p_total = 0,
                                            isPending = True\<rparr>))))))"

section \<open>Address history (\<open>getPaginatedAddressTransactions\<close>)\<close>

text \<open>An index record with the timestamp of its transaction: \<open>{...tx, timestamp}\<close>.\<close>

record AddressTxView =
  indexRecord :: AddressTx
  at_timestamp :: int

text \<open>
  The enrichment loop: one \<open>findOne\<close> on \<open>txes\<close> per index record; a record whose
  transaction is not found is not pushed.
\<close>

fun joinTimestamps :: "Database \<Rightarrow> AddressTx list \<Rightarrow> error + AddressTxView list" where
  "joinTimestamps db [] = Inr []"
| "joinTimestamps db (tx # others) =
     andThen (collection db ''txes'' col_txes) (\<lambda>docs.
     andThen (joinTimestamps db others) (\<lambda>enriched.
       case findOne (filter (\<lambda>d. txid d = a_txid tx) docs) of
         None \<Rightarrow> Inr enriched
       | Some transaction \<Rightarrow>
           Inr (\<lparr>indexRecord = tx, at_timestamp = tx_timestamp transaction\<rparr> # enriched)))"

definition getPaginatedAddressTransactions ::
  "error + Database \<Rightarrow> string \<Rightarrow> int \<Rightarrow> int \<Rightarrow> error + AddressTxView Page" where
  "getPaginatedAddressTransactions conn address page limit =
     andThen conn (\<lambda>db.
     andThen (collection db ''addresstxes'' col_addresstxes) (\<lambda>idx.
       let totalCount = int (length (filter (\<lambda>a. a_id a = address) idx));
           totalPages = ceilDiv totalCount limit;
           skip = (page - 1) * limit
       in andThen (collection db ''addresstxes'' col_addresstxes) (\<lambda>idx'.
          andThen (cursor_skip skip (sortDesc a_blockindex (filter (\<lambda>a. a_id a = address) idx')))
            (\<lambda>skipped.
          andThen (joinTimestamps db (cursor_limit limit skipped)) (\<lambda>enrichedTxs.
          Inr \<lparr>items = enrichedTxs,
               pagination = \<lparr>currentPage = page, totalPages = totalPages,
                             totalItems = totalCount\<rparr>\<rparr>)))))"

section \<open>Difficulty history (\<open>getDifficultyHistory\<close>)\<close>

record DifficultyPoint =
  blockHeight :: int
  dp_difficulty :: rat
  dp_timestamp :: int

text \<open>First source: the network history, mapped after sorting by \<open>blockindex\<close>.\<close>

definition fromNetworkHistory :: "NetworkHistory list \<Rightarrow> DifficultyPoint list" where
  "fromNetworkHistory networkHistory =
     map (\<lambda>history. \<lparr>blockHeight = nh_blockindex history,
                      dp_difficulty = difficulty_pow history,
                      dp_timestamp = nh_timestamp history\<rparr>)
         (sortAsc nh_blockindex networkHistory)"

text \<open>Second source: the \<open>blocks\<close> collection, mapped after sorting by \<open>height\<close>.\<close>

definition fromBlocks :: "BlockDoc list \<Rightarrow> DifficultyPoint list" where
  "fromBlocks blocks =
     map (\<lambda>block. \<lparr>blockHeight = b_height block,
                    dp_difficulty = orElse (b_difficulty block) 0,
                    dp_timestamp = b_timestamp block\<rparr>)
         (sortAsc b_height blocks)"

text \<open>
  Third source: one point for each height, from \<open>startHeight\<close> upwards, that has a
  transaction; its difficulty comes from the nearest network history at or below it.
  \<open>Array.from({length: limit}, ...)\<close> is empty for a \<open>limit\<close> below one.
\<close>

definition fromTxes ::
  "TransactionRecord list \<Rightarrow> NetworkHistory list \<Rightarrow> int \<Rightarrow> int \<Rightarrow> DifficultyPoint list" where
  "fromTxes docs hs latestHeight limit =
     (let startHeight = max 1 (latestHeight - limit + 1);
          blockHeights = filter (\<lambda>h. h \<le> latestHeight)
                           (map (\<lambda>i. startHeight + int i) [0 ..< nat limit]);
          difficultyData =
            concat (map (\<lambda>h.
              case findOne (filter (\<lambda>t. blockindex t = h) docs) of
                None \<Rightarrow> []
              | Some tx \<Rightarrow>
                  (let networkData =
                         findOne (sortDesc nh_blockindex
                                   (filter (\<lambda>n. nh_blockindex n \<le> h) hs))
                   in [\<lparr>blockHeight = h,
                        dp_difficulty = (case networkData of
                                           None \<Rightarrow> 0
                                         | Some n \<Rightarrow> orElse (difficulty_pow n) 0),
                        dp_timestamp = tx_timestamp tx\<rparr>])) blockHeights)
      in sortAsc blockHeight difficultyData)"

text \<open>
  The connection is made before the \<open>try\<close>; every read is inside it.  The reads of the
  third source repeat collections that were read before in the same call.
\<close>

definition getDifficultyHistory ::
  "error + Database \<Rightarrow> int \<Rightarrow> error + DifficultyPoint list" where
  "getDifficultyHistory conn limit =
     andThen conn (\<lambda>db.
       Inr (tryCatch
         (andThen (collection db ''networkhistories'' col_networkhistories) (\<lambda>hs.
            let networkHistory = cursor_limit limit (sortDesc nh_blockindex hs)
            in if length networkHistory > 0 then Inr (fromNetworkHistory networkHistory)
               else
                 andThen (collection db ''blocks'' col_blocks) (\<lambda>bs.
                   let blocks = cursor_limit limit (sortDesc b_height bs)
                   in if length blocks > 0 then Inr (fromBlocks blocks)
                      else
                        andThen (collection db ''txes'' col_txes) (\<lambda>docs.
                          case cursor_limit 1 (sortDesc blockindex docs) of
                            [] \<Rightarrow> Inr []
                          | latest # _ \<Rightarrow>
                              Inr (fromTxes docs hs (blockindex latest) limit)))))
         []))"

section \<open>Notions used to state the properties\<close>

text \<open>
  The addresses of a raw output as both loops read them, an output that carries an
  address, its amount in the smallest unit, and the entry pushed for it.
\<close>

definition outputAddresses :: "RawOut \<Rightarrow> string list" where
  "outputAddresses output =
     (case scriptPubKey output of
        None \<Rightarrow> []
      | Some spk \<Rightarrow> (case spk_addresses spk of None \<Rightarrow> [] | Some a \<Rightarrow> a))"

definition addressBearing :: "RawOut \<Rightarrow> bool" where
  "addressBearing output = (outputAddresses output \<noteq> [])"

definition smallestUnits :: "RawOut \<Rightarrow> int" where
  "smallestUnits output = Math_round (out_value output * 100000000)"

definition pushedOutput :: "RawOut \<Rightarrow> TxIO" where
  "pushedOutput output =
     \<lparr>addresses = (case outputAddresses output of [] \<Rightarrow> [] | a # _ \<Rightarrow> a),
      amount = smallestUnits output\<rparr>"

text \<open>The outputs of the raw transaction the node reports for an id (none without one).\<close>

definition rawOutputs :: "Node \<Rightarrow> string \<Rightarrow> RawOut list" where
  "rawOutputs node t =
     (case getRawTransaction node t of
        None \<Rightarrow> []
      | Some rawTx \<Rightarrow> (case raw_vout rawTx of None \<Rightarrow> [] | Some outputs \<Rightarrow> outputs))"

section \<open>Example data\<close>

text \<open>
  A small chain: block \<open>h1\<close> with a coinbase transaction and a payment, block \<open>h2\<close> with a
  single payment and no coinbase transaction, block \<open>h3\<close> with a coinbase transaction only.
  The address index of \<open>bob\<close> has one record whose transaction is not in the log.
\<close>

definition example_txes :: "TransactionRecord list" where
  "example_txes =
     [\<lparr>txid = ''p2'', blockhash = ''h2'', blockindex = 2, tx_timestamp = 200,
        vin = [\<lparr>addresses = ''bob'', amount = 20\<rparr>],
        vout = [\<lparr>addresses = ''carol'', amount = 20\<rparr>]\<rparr>,
      \<lparr>txid = ''p1'', blockhash = ''h1'', blockindex = 1, tx_timestamp = 100,
        vin = [\<lparr>addresses = ''alice'', amount = 50\<rparr>],
        vout = [\<lparr>addresses = ''bob'', amount = 50\<rparr>]\<rparr>,
      \<lparr>txid = ''c1'', blockhash = ''h1'', blockindex = 1, tx_timestamp = 100,
        vin = [\<lparr>addresses = ''coinbase'', amount = 0\<rparr>],
        vout = [\<lparr>addresses = ''miner1'', amount = 300\<rparr>]\<rparr>,
      \<lparr>txid = ''c3'', blockhash = ''h3'', blockindex = 3, tx_timestamp = 300,
        vin = [\<lparr>addresses = ''coinbase'', amount = 0\<rparr>],
        vout = [\<lparr>addresses = ''miner3'', amount = 300\<rparr>]\<rparr>]"

definition example_db :: Database where
  "example_db =
     \<lparr>col_txes = example_txes,
      col_networkhistories =
        [\<lparr>nh_blockindex = 1, nh_timestamp = 100, difficulty_pow = 3 / 2, difficulty_pos = 0,
          nethash = 5000\<rparr>,
         \<lparr>nh_blockindex = 3, nh_timestamp = 300, difficulty_pow = 2, difficulty_pos = 0,
          nethash = 6000\<rparr>],
      col_coinstats = [\<lparr>count = 450000, cs_supply = 135000000, cs_txes = 4, connections = 8\<rparr>],
      col_blocks = [],
      col_addresstxes =
        [\<lparr>a_id = ''bob'', a_txid = ''p1'', a_blockindex = 1, a_amount = 50\<rparr>,
         \<lparr>a_id = ''bob'', a_txid = ''gone'', a_blockindex = 2, a_amount = 7\<rparr>,
         \<lparr>a_id = ''bob'', a_txid = ''p2'', a_blockindex = 2, a_amount = - 20\<rparr>,
         \<lparr>a_id = ''carol'', a_txid = ''p2'', a_blockindex = 2, a_amount = 20\<rparr>],
      col_mempool = [\<lparr>mp_txid = ''m1'', mp_size = 200, mp_time = 1000, mp_fee = 0\<rparr>],
      col_mempoolstats = [],
      rejected = []\<rparr>"

definition block_h1 :: DerivedBlock where
  "block_h1 =
     \<lparr>d_id = ''h1'', height = 1, hash = ''h1'', d_timestamp = 100, txCount = 2,
      minedBy = Some ''miner1''\<rparr>"

text \<open>A store with five documents in \<open>blocks\<close> and no network history.\<close>

definition example_blocks :: "BlockDoc list" where
  "example_blocks =
     [\<lparr>b_height = 5, b_hash = ''h5'', b_difficulty = 5, b_timestamp = 500\<rparr>,
      \<lparr>b_height = 3, b_hash = ''h3'', b_difficulty = 0, b_timestamp = 300\<rparr>,
      \<lparr>b_height = 1, b_hash = ''h1'', b_difficulty = 1, b_timestamp = 100\<rparr>,
      \<lparr>b_height = 4, b_hash = ''h4'', b_difficulty = 4, b_timestamp = 400\<rparr>,
      \<lparr>b_height = 2, b_hash = ''h2'', b_difficulty = 2, b_timestamp = 200\<rparr>]"

definition example_blocks_db :: Database where
  "example_blocks_db = example_db\<lparr>col_networkhistories := [], col_blocks := example_blocks\<rparr>"

text \<open>
  A node that knows one mempool transaction, \<open>m1\<close>: a coinbase input and one output of
  5 coins to \<open>X\<close>; in the second node the transaction has a further output of 1 coin
  whose script carries no address.
\<close>

definition example_output :: RawOut where
  "example_output =
     \<lparr>out_value = 5, scriptPubKey = Some \<lparr>spk_addresses = Some [''X'']\<rparr>\<rparr>"

definition example_bare_output :: RawOut where
  "example_bare_output =
     \<lparr>out_value = 1, scriptPubKey = Some \<lparr>spk_addresses = None\<rparr>\<rparr>"

definition example_node_with :: "RawOut list \<Rightarrow> Node" where
  "example_node_with outputs =
     \<lparr>getmininginfo = Inl RpcError,
      getnetworkhashps = Inl RpcError,
      getmempoolinfo = Inl RpcError,
      getrawmempool = Inl RpcError,
      getrawtransaction =
        (\<lambda>t. if t = ''m1''
             then Inr (Some \<lparr>raw_txid = ''m1'',
                              raw_vin = Some [\<lparr>coinbase = Some ''04ffff'', in_txid = None,
                                               in_vout = 0\<rparr>],
                              raw_vout = Some outputs\<rparr>)
             else Inl RpcError)\<rparr>"

definition example_node :: Node where
  "example_node = example_node_with [example_output]"

definition example_node_bare :: Node where
  "example_node_bare = example_node_with [example_output, example_bare_output]"

section \<open>The price cache: freshness window and fallbacks\<close>

lemma getADVCPrice_nonempty:
  "getADVCPrice (Some c) now r now' = (p, pc', f) \<Longrightarrow>
     pc' \<noteq> None \<and>
     ((p = price c \<and> pc' = Some c) \<or>
      (\<exists>q. r = UsdPrice q \<and> p = toFixed6 q \<and> pc' = Some \<lparr>price = p, timestamp = now'\<rparr>))"
  by (auto simp: getADVCPrice_def Let_def split: if_splits fetchResult.splits)

lemma getADVCPrice_calls_nonempty:
  "getADVCPrice_calls (Some c) cs = (ps, final) \<Longrightarrow>
     final \<noteq> None \<and> set ps \<subseteq> insert (price c) (set (fetchedPrices cs))"
proof (induction cs arbitrary: c ps final)
  case Nil
  then show ?case by auto
next
  case (Cons call cs)
  obtain now r now' where call: "call = (now, r, now')" by (cases call) auto
  obtain p pc' f where step: "getADVCPrice (Some c) now r now' = (p, pc', f)"
    by (cases "getADVCPrice (Some c) now r now'") auto
  from getADVCPrice_nonempty[OF step] obtain c' where c': "pc' = Some c'" by auto
  obtain ps' final' where later: "getADVCPrice_calls (Some c') cs = (ps', final')"
    by (cases "getADVCPrice_calls (Some c') cs") auto
  from Cons.prems call step c' later have ps: "ps = p # ps'" and fin: "final = final'" by auto
  from Cons.IH[OF later]
  have ih: "final' \<noteq> None" "set ps' \<subseteq> insert (price c') (set (fetchedPrices cs))"
    by auto
  from getADVCPrice_nonempty[OF step] c'
  consider (kept) "p = price c" "c' = c"
    | (fresh) q where "r = UsdPrice q" "p = toFixed6 q" "price c' = p"
    by auto
  then show ?case
  proof cases
    case kept
    with ih ps fin call show ?thesis by (cases r) auto
  next
    case fresh
    with ih ps fin call show ?thesis by auto
  qed
qed

text \<open>
  C4.  The cache duration is 20 minutes (1200000 ms).  A successful fetch made when the
  cache is empty or expired stores the formatted price with the time of the update.  With
  price \<open>P\<close> stored at time \<open>T\<close>: a query at \<open>T'\<close> with \<open>T' - T < CACHE_DURATION\<close> returns
  \<open>P\<close>, leaves the cache as it is and does not call the feed; a query with
  \<open>T' - T \<ge> CACHE_DURATION\<close> calls the feed, and when the answer is not a price it still
  returns \<open>P\<close> and keeps the entry.  With an empty cache and a failed fetch the result is
  the string \<open>"0.000000"\<close>.  The function always returns a string.
\<close>

theorem price_cache_window:
  "CACHE_DURATION = 1200000
   \<and> ((\<forall>c. pc = Some c \<longrightarrow> \<not> t0 - timestamp c < CACHE_DURATION) \<longrightarrow>
        getADVCPrice pc t0 (UsdPrice q) T =
          (toFixed6 q, Some \<lparr>price = toFixed6 q, timestamp = T\<rparr>, True))
   \<and> (T' - T < CACHE_DURATION \<longrightarrow>
        getADVCPrice (Some \<lparr>price = P, timestamp = T\<rparr>) T' r n =
          (P, Some \<lparr>price = P, timestamp = T\<rparr>, False))
   \<and> (T' - T \<ge> CACHE_DURATION \<longrightarrow>
        snd (snd (getADVCPrice (Some \<lparr>price = P, timestamp = T\<rparr>) T' r n)) = True
        \<and> ((\<forall>q'. r \<noteq> UsdPrice q') \<longrightarrow>
             getADVCPrice (Some \<lparr>price = P, timestamp = T\<rparr>) T' r n =
               (P, Some \<lparr>price = P, timestamp = T\<rparr>, True)))
   \<and> ((\<forall>q'. r \<noteq> UsdPrice q') \<longrightarrow>
        getADVCPrice None T' r n = (''0.000000'', None, True))"
  by (cases r) (auto simp: getADVCPrice_def CACHE_DURATION_def Let_def split: option.splits)

text \<open>
  The scenario of the specification: a fetch at time 1000 returns 1.23456; a query 19
  minutes later is served from the cache without a request, a query 21 minutes later makes
  a request that fails and is still served \<open>"1.234560"\<close>; an empty cache and a failing
  feed give the default.
\<close>

theorem price_cache_window_witness:
  "getADVCPrice None 5 (UsdPrice (123456 / 100000)) 1000 =
     (''1.234560'', Some \<lparr>price = ''1.234560'', timestamp = 1000\<rparr>, True)
   \<and> getADVCPrice (Some \<lparr>price = ''1.234560'', timestamp = 1000\<rparr>)
        (1000 + 19 * 60 * 1000) FetchRejects 0 =
     (''1.234560'', Some \<lparr>price = ''1.234560'', timestamp = 1000\<rparr>, False)
   \<and> getADVCPrice (Some \<lparr>price = ''1.234560'', timestamp = 1000\<rparr>)
        (1000 + 21 * 60 * 1000) FetchRejects 0 =
     (''1.234560'', Some \<lparr>price = ''1.234560'', timestamp = 1000\<rparr>, True)
   \<and> getADVCPrice None 0 (NotOk 500) 0 = (''0.000000'', None, True)"
proof -
  have fmt: "toFixed6 (3858 / 3125) = ''1.234560''" by code_simp
  have a: "getADVCPrice None 5 (UsdPrice (123456 / 100000)) 1000 =
     (''1.234560'', Some \<lparr>price = ''1.234560'', timestamp = 1000\<rparr>, True)"
    using price_cache_window[of None 5 "123456 / 100000" 1000] by (simp add: fmt)
  have b: "getADVCPrice (Some \<lparr>price = ''1.234560'', timestamp = 1000\<rparr>)
             (1000 + 19 * 60 * 1000) FetchRejects 0 =
     (''1.234560'', Some \<lparr>price = ''1.234560'', timestamp = 1000\<rparr>, False)"
    using price_cache_window[of _ _ _ 1000 "1000 + 19 * 60 * 1000" "''1.234560''" FetchRejects 0]
    by (simp add: CACHE_DURATION_def)
  have c: "getADVCPrice (Some \<lparr>price = ''1.234560'', timestamp = 1000\<rparr>)
             (1000 + 21 * 60 * 1000) FetchRejects 0 =
     (''1.234560'', Some \<lparr>price = ''1.234560'', timestamp = 1000\<rparr>, True)"
    using price_cache_window[of _ _ _ 1000 "1000 + 21 * 60 * 1000" "''1.234560''" FetchRejects 0]
    by (simp add: CACHE_DURATION_def)
  have d: "getADVCPrice None 0 (NotOk 500) 0 = (''0.000000'', None, True)"
    using price_cache_window[of _ _ _ _ 0 _ "NotOk 500" 0] by simp
  from a b c d show ?thesis by blast
qed

section \<open>The price cache is never emptied\<close>

text \<open>
  C9, as stated, fails: a quote below 0.0000005 is formatted as \<open>"0.000000"\<close>, cached, and
  served by the later calls, so the default string is returned after a successful fetch.
\<close>

theorem default_string_after_successful_fetch:
  "getADVCPrice_calls None
     [(0, UsdPrice (1 / 10000000), 10), (20, FetchRejects, 30), (2000000, NotOk 500, 2000001)]
   = ([''0.000000'', ''0.000000'', ''0.000000''], Some \<lparr>price = ''0.000000'', timestamp = 10\<rparr>)"
  by code_simp

text \<open>
  C9, amended.  A call that finds the cache filled leaves it filled, and returns either
  the cached price (cache unchanged) or the price it has just fetched (now cached).  So
  after the first successful fetch, in any sequence of calls, the cache is never empty
  again and every returned string is the price cached at the start or one of the prices
  fetched in the sequence, however many fetches fail; the string \<open>"0.000000"\<close> is returned
  only when it is such a price.
\<close>

theorem price_cache_never_emptied:
  "(getADVCPrice (Some c) now r now' = (p, pc', f) \<longrightarrow>
      pc' \<noteq> None \<and>
      ((p = price c \<and> pc' = Some c) \<or>
       (\<exists>q. r = UsdPrice q \<and> p = toFixed6 q \<and> pc' = Some \<lparr>price = p, timestamp = now'\<rparr>)))
   \<and> (getADVCPrice_calls (Some c) cs = (ps, final) \<longrightarrow>
        final \<noteq> None \<and>
        set ps \<subseteq> insert (price c) (set (fetchedPrices cs)) \<and>
        (''0.000000'' \<notin> insert (price c) (set (fetchedPrices cs)) \<longrightarrow> ''0.000000'' \<notin> set ps))"
  using getADVCPrice_nonempty[of c now r now' p pc' f] getADVCPrice_calls_nonempty[of c cs ps final]
  by blast

theorem price_cache_never_emptied_witness:
  "getADVCPrice (Some \<lparr>price = ''1.234560'', timestamp = 1000\<rparr>) 1300000 FetchRejects 1300001
     = (''1.234560'', Some \<lparr>price = ''1.234560'', timestamp = 1000\<rparr>, True)
   \<and> getADVCPrice_calls (Some \<lparr>price = ''1.234560'', timestamp = 1000\<rparr>)
     [(1300000, FetchRejects, 1300001), (1400000, UsdPrice 2, 1400002), (3000000, NotOk 503, 0)]
     = ([''1.234560'', ''2.000000'', ''2.000000''], Some \<lparr>price = ''2.000000'', timestamp = 1400002\<rparr>)
   \<and> Some \<lparr>price = ''2.000000'', timestamp = 1400002\<rparr> \<noteq> None
   \<and> ''0.000000'' \<notin> set [''1.234560'', ''2.000000'', ''2.000000'']"
proof -
  let ?c = "\<lparr>price = ''1.234560'', timestamp = 1000\<rparr>"
  let ?cs = "[(1300000, FetchRejects, 1300001), (1400000, UsdPrice 2, 1400002), (3000000, NotOk 503, 0)]"
  have one: "getADVCPrice (Some ?c) 1300000 FetchRejects 1300001 = (''1.234560'', Some ?c, True)"
    by code_simp
  have run: "getADVCPrice_calls (Some ?c) ?cs
     = ([''1.234560'', ''2.000000'', ''2.000000''], Some \<lparr>price = ''2.000000'', timestamp = 1400002\<rparr>)"
    by code_simp
  have fetched: "fetchedPrices ?cs = [''2.000000'']"
    by code_simp
  note th = price_cache_never_emptied[of ?c 1300000 FetchRejects 1300001
      "''1.234560''" "Some ?c" True ?cs
      "[''1.234560'', ''2.000000'', ''2.000000'']"
      "Some \<lparr>price = ''2.000000'', timestamp = 1400002\<rparr>"]
  from th one have kept: "Some ?c \<noteq> None" by blast
  from th run
  have "Some \<lparr>price = ''2.000000'', timestamp = 1400002\<rparr> \<noteq> None
        \<and> (''0.000000'' \<notin> insert (price ?c) (set (fetchedPrices ?cs))
            \<longrightarrow> ''0.000000'' \<notin> set [''1.234560'', ''2.000000'', ''2.000000''])"
    by blast
  with one run kept show ?thesis by (simp add: fetched)
qed

section \<open>The halving schedule\<close>

lemma getMiningStats_ok:
  assumes "''coinstats'' \<notin> set (rejected db)" "''networkhistories'' \<notin> set (rejected db)"
    and "findOne (col_coinstats db) = Some coinStats"
  shows "\<exists>m. getMiningStats (Inr db) node = Inr m \<and>
           ms_blocks m = count coinStats \<and>
           currentReward m =
             divideBy 300 (Math_pow2 (floor (rat_of_int (count coinStats) / 300000))) \<and>
           nextHalvingHeight m = (floor (rat_of_int (count coinStats) / 300000) + 1) * 300000 \<and>
           blocksUntilHalving m = nextHalvingHeight m - count coinStats \<and>
           daysUntilHalving m = rat_of_int (blocksUntilHalving m * 180) / (60 * 60 * 24)"
  using assms by (simp add: getMiningStats_def andThen_def collection_def Let_def)

lemma cycle_div: "floor (rat_of_int h / 300000) = h div 300000"
  using floor_divide_of_int_eq[of h 300000, where ?'a = rat] by simp

lemma cycle_less_1024: "h div 300000 < 1024 \<longleftrightarrow> h < (307200000 :: int)"
proof -
  have "h = 300000 * (h div 300000) + h mod 300000" by simp
  moreover have "0 \<le> h mod 300000" "h mod 300000 < 300000" by simp_all
  ultimately show ?thesis by linarith
qed

lemma reward_finite:
  assumes "0 \<le> c" "c < 1024"
  shows "divideBy 300 (Math_pow2 c) = Finite (300 / 2 ^ nat c)"
proof -
  have p: "(2::rat) powi c = 2 ^ nat c"
    using assms(1) by (simp add: power_int_def)
  have "(1::rat) \<le> 2 ^ nat c" by simp
  then have "(300::rat) / 2 ^ nat c \<le> 300"
    by (simp add: divide_le_eq)
  moreover have "(300::rat) < 2 ^ 1024 - 2 ^ 970" by simp
  ultimately have small: "\<not> (2 ^ 1024 - 2 ^ 970 \<le> (300::rat) / 2 ^ nat c)" by linarith
  from assms have "Math_pow2 c = Finite (2 ^ nat c)"
    by (simp add: Math_pow2_def p)
  with small show ?thesis
    by (simp add: divideBy_def)
qed

lemma reward_zero: "1024 \<le> c \<Longrightarrow> divideBy 300 (Math_pow2 c) = Finite 0"
  by (simp add: divideBy_def Math_pow2_def)

text \<open>
  C5, as stated, fails: at height 307200000 the cycle is 1024, \<open>Math.pow(2, 1024)\<close> is
  \<open>Infinity\<close>, and the reward is \<open>300 / Infinity = 0\<close>, which is not \<open>300 / 2^1024\<close>.
\<close>

theorem reward_zero_at_cycle_1024:
  "(\<exists>m. getMiningStats
           (Inr (example_db\<lparr>col_coinstats :=
              [\<lparr>count = 307200000, cs_supply = 180000000, cs_txes = 4, connections = 8\<rparr>]\<rparr>))
           example_node = Inr m \<and>
         ms_blocks m = 307200000 \<and> currentReward m = Finite 0 \<and>
         nextHalvingHeight m = 307500000)
   \<and> floor (rat_of_int 307200000 / 300000) = 1024
   \<and> (300 :: rat) / 2 ^ 1024 \<noteq> 0"
  by (simp add: getMiningStats_def andThen_def collection_def findOne_def example_db_def
      Let_def divideBy_def Math_pow2_def cycle_div)

text \<open>
  C5, amended.  When the \<open>coinstats\<close> record is read with height \<open>h \<ge> 0\<close>, \<open>getMiningStats\<close>
  returns statistics with \<open>cycle = floor(h / 300000)\<close>, \<open>currentReward = 300 / 2^cycle\<close>
  when \<open>cycle < 1024\<close>, that is \<open>h < 307200000\<close>, and \<open>currentReward = 0\<close> from there,
  \<open>nextHalvingHeight = (cycle + 1) * 300000\<close>,
  \<open>blocksUntilHalving = nextHalvingHeight - h\<close> and
  \<open>daysUntilHalving = blocksUntilHalving * 180 / 86400\<close>, whatever the node answers.
  Height 0 gives reward 300 and next halving at 300000; height 300000 gives reward 150;
  height 450000 gives reward 150 and 150000 blocks until the halving.
\<close>

theorem halving_schedule:
  assumes "''coinstats'' \<notin> set (rejected db)" "''networkhistories'' \<notin> set (rejected db)"
    and "findOne (col_coinstats db) = Some coinStats" and "count coinStats = h" and "0 \<le> h"
  shows "\<exists>m cycle. getMiningStats (Inr db) node = Inr m \<and>
           ms_blocks m = h \<and>
           cycle = h div 300000 \<and>
           (h < 307200000 \<longrightarrow> cycle < 1024 \<and> currentReward m = Finite (300 / 2 ^ nat cycle)) \<and>
           (307200000 \<le> h \<longrightarrow> 1024 \<le> cycle \<and> currentReward m = Finite 0) \<and>
           nextHalvingHeight m = (cycle + 1) * 300000 \<and>
           blocksUntilHalving m = nextHalvingHeight m - h \<and>
           daysUntilHalving m = rat_of_int (blocksUntilHalving m) * 180 / 86400 \<and>
           (h = 0 \<longrightarrow> currentReward m = Finite 300 \<and> nextHalvingHeight m = 300000) \<and>
           (h = 300000 \<longrightarrow> currentReward m = Finite 150) \<and>
           (h = 450000 \<longrightarrow> currentReward m = Finite 150 \<and> blocksUntilHalving m = 150000)"
proof -
  from getMiningStats_ok[OF assms(1-3), of node] obtain m where
    m: "getMiningStats (Inr db) node = Inr m" "ms_blocks m = h"
    and r: "currentReward m = divideBy 300 (Math_pow2 (h div 300000))"
    and n: "nextHalvingHeight m = (h div 300000 + 1) * 300000"
    and b: "blocksUntilHalving m = nextHalvingHeight m - h"
    and d: "daysUntilHalving m = rat_of_int (blocksUntilHalving m * 180) / (60 * 60 * 24)"
    unfolding cycle_div assms(4) by blast
  from assms(5) have c0: "0 \<le> h div 300000" by (simp add: pos_imp_zdiv_nonneg_iff)
  have lo: "h < 307200000 \<longrightarrow>
              h div 300000 < 1024 \<and> currentReward m = Finite (300 / 2 ^ nat (h div 300000))"
    using r c0 reward_finite[of "h div 300000"] by (simp add: cycle_less_1024)
  have hi: "307200000 \<le> h \<longrightarrow> 1024 \<le> h div 300000 \<and> currentReward m = Finite 0"
    using r reward_zero[of "h div 300000"] cycle_less_1024[of h] by auto
  have d': "daysUntilHalving m = rat_of_int (blocksUntilHalving m) * 180 / 86400"
    using d by simp
  have e0: "h = 0 \<longrightarrow> currentReward m = Finite 300 \<and> nextHalvingHeight m = 300000"
    using lo n by simp
  have e1: "h = 300000 \<longrightarrow> currentReward m = Finite 150"
    using lo by simp
  have e2: "h = 450000 \<longrightarrow> currentReward m = Finite 150 \<and> blocksUntilHalving m = 150000"
    using lo n b by simp
  from m lo hi n b d' e0 e1 e2 show ?thesis by blast
qed

text \<open>
  The example store is at height 450000, in the second halving cycle; the same store at
  heights 0 and 300000 gives the rewards 300 and 150, and at height 400000000 the
  reward 0.
\<close>

theorem halving_schedule_witness:
  "(\<exists>m. getMiningStats (Inr example_db) example_node = Inr m \<and>
          ms_blocks m = 450000 \<and> currentReward m = Finite 150 \<and> nextHalvingHeight m = 600000 \<and>
          blocksUntilHalving m = 150000 \<and> daysUntilHalving m = 625 / 2)
   \<and> (\<exists>m. getMiningStats
            (Inr (example_db\<lparr>col_coinstats :=
               [\<lparr>count = 0, cs_supply = 0, cs_txes = 0, connections = 0\<rparr>]\<rparr>)) example_node = Inr m \<and>
          ms_blocks m = 0 \<and> currentReward m = Finite 300 \<and> nextHalvingHeight m = 300000)
   \<and> (\<exists>m. getMiningStats
            (Inr (example_db\<lparr>col_coinstats :=
               [\<lparr>count = 300000, cs_supply = 90000000, cs_txes = 9, connections = 8\<rparr>]\<rparr>)) example_node = Inr m \<and>
          ms_blocks m = 300000 \<and> currentReward m = Finite 150)
   \<and> (\<exists>m. getMiningStats
            (Inr (example_db\<lparr>col_coinstats :=
               [\<lparr>count = 400000000, cs_supply = 180000000, cs_txes = 9, connections = 8\<rparr>]\<rparr>))
            example_node = Inr m \<and>
          ms_blocks m = 400000000 \<and> currentReward m = Finite 0 \<and>
          nextHalvingHeight m = 400200000 \<and> blocksUntilHalving m = 200000)"
proof -
  let ?db0 = "example_db\<lparr>col_coinstats := [\<lparr>count = 0, cs_supply = 0, cs_txes = 0, connections = 0\<rparr>]\<rparr>"
  let ?db1 = "example_db\<lparr>col_coinstats :=
               [\<lparr>count = 300000, cs_supply = 90000000, cs_txes = 9, connections = 8\<rparr>]\<rparr>"
  let ?db2 = "example_db\<lparr>col_coinstats :=
               [\<lparr>count = 400000000, cs_supply = 180000000, cs_txes = 9, connections = 8\<rparr>]\<rparr>"
  have a: "''coinstats'' \<notin> set (rejected example_db)"
    and b: "''networkhistories'' \<notin> set (rejected example_db)"
    and c: "findOne (col_coinstats example_db) =
              Some \<lparr>count = 450000, cs_supply = 135000000, cs_txes = 4, connections = 8\<rparr>"
    by (simp_all add: example_db_def findOne_def)
  have a0: "''coinstats'' \<notin> set (rejected ?db0)"
    and b0: "''networkhistories'' \<notin> set (rejected ?db0)"
    and c0: "findOne (col_coinstats ?db0) =
              Some \<lparr>count = 0, cs_supply = 0, cs_txes = 0, connections = 0\<rparr>"
    by (simp_all add: example_db_def findOne_def)
  have a1: "''coinstats'' \<notin> set (rejected ?db1)"
    and b1: "''networkhistories'' \<notin> set (rejected ?db1)"
    and c1: "findOne (col_coinstats ?db1) =
              Some \<lparr>count = 300000, cs_supply = 90000000, cs_txes = 9, connections = 8\<rparr>"
    by (simp_all add: example_db_def findOne_def)
  have a2: "''coinstats'' \<notin> set (rejected ?db2)"
    and b2: "''networkhistories'' \<notin> set (rejected ?db2)"
    and c2: "findOne (col_coinstats ?db2) =
              Some \<lparr>count = 400000000, cs_supply = 180000000, cs_txes = 9, connections = 8\<rparr>"
    by (simp_all add: example_db_def findOne_def)
  have d: "count \<lparr>count = 450000, cs_supply = 135000000, cs_txes = 4, connections = 8\<rparr> = 450000"
    and d0: "count \<lparr>count = 0, cs_supply = 0, cs_txes = 0, connections = 0\<rparr> = 0"
    and d1: "count \<lparr>count = 300000, cs_supply = 90000000, cs_txes = 9, connections = 8\<rparr> = 300000"
    and d2: "count \<lparr>count = 400000000, cs_supply = 180000000, cs_txes = 9, connections = 8\<rparr>
               = 400000000"
    by simp_all
  from halving_schedule[OF a b c d, of example_node]
  have w: "\<exists>m. getMiningStats (Inr example_db) example_node = Inr m \<and>
          ms_blocks m = 450000 \<and> currentReward m = Finite 150 \<and> nextHalvingHeight m = 600000 \<and>
          blocksUntilHalving m = 150000 \<and> daysUntilHalving m = 625 / 2"
    by auto
  from halving_schedule[OF a0 b0 c0 d0, of example_node]
  have w0: "\<exists>m. getMiningStats (Inr ?db0) example_node = Inr m \<and>
          ms_blocks m = 0 \<and> currentReward m = Finite 300 \<and> nextHalvingHeight m = 300000"
    by auto
  from halving_schedule[OF a1 b1 c1 d1, of example_node]
  have w1: "\<exists>m. getMiningStats (Inr ?db1) example_node = Inr m \<and>
          ms_blocks m = 300000 \<and> currentReward m = Finite 150"
    by auto
  from halving_schedule[OF a2 b2 c2 d2, of example_node]
  have w2: "\<exists>m. getMiningStats (Inr ?db2) example_node = Inr m \<and>
          ms_blocks m = 400000000 \<and> currentReward m = Finite 0 \<and>
          nextHalvingHeight m = 400200000 \<and> blocksUntilHalving m = 200000"
    by auto
  from w w0 w1 w2 show ?thesis by blast
qed

section \<open>Errors that reach the caller\<close>

text \<open>
  C3.  The claim does not hold of the code.  With no document in \<open>coinstats\<close>, the lookup
  in \<open>getMiningStats\<close> gives \<open>null\<close>, \<open>coinStats.count\<close> throws, and nothing catches the
  \<open>TypeError\<close>; \<open>getNetworkStats\<close> checks the same lookup before using it.  In
  \<open>getBlockByHash\<close> a rejected read of \<open>txes\<close> is not caught either.
\<close>

theorem getMiningStats_without_coinstats_throws:
  "getMiningStats (Inr (example_db\<lparr>col_coinstats := []\<rparr>)) example_node = Inl TypeError
   \<and> getBlockByHash (Inr (example_db\<lparr>rejected := [''txes'']\<rparr>)) ''h1'' = Inl StorageError"
  by (simp add: getMiningStats_def getBlockByHash_def andThen_def collection_def findOne_def
      example_db_def)

section \<open>Derived blocks: transaction count and miner\<close>

lemma filter_filter_imp:
  "(\<And>x. x \<in> set xs \<Longrightarrow> P x \<Longrightarrow> Q x) \<Longrightarrow> filter P (filter Q xs) = filter P xs"
  by (induction xs) auto

lemma groupStage_member:
  "(t, g) \<in> set (groupStage xs) \<Longrightarrow>
     t \<in> set xs \<and> g = filter (\<lambda>u. blockhash u = blockhash t) xs \<and> (\<exists>r. g = t # r)"
proof (induction xs arbitrary: t g rule: groupStage.induct)
  case 1
  then show ?case by simp
next
  case (2 x xs)
  let ?rest = "filter (\<lambda>u. blockhash u \<noteq> blockhash x) xs"
  from "2.prems" consider
      (head) "t = x" "g = x # filter (\<lambda>u. blockhash u = blockhash x) xs"
    | (tail) "(t, g) \<in> set (groupStage ?rest)"
    by auto
  then show ?case
  proof cases
    case head
    then show ?thesis by simp
  next
    case tail
    from "2.IH"[OF tail] have t: "t \<in> set ?rest"
      and g: "g = filter (\<lambda>u. blockhash u = blockhash t) ?rest"
      and r: "\<exists>r. g = t # r" by auto
    from t have ne: "blockhash t \<noteq> blockhash x" by simp
    have "filter (\<lambda>u. blockhash u = blockhash t) ?rest = filter (\<lambda>u. blockhash u = blockhash t) xs"
      by (rule filter_filter_imp) (use ne in auto)
    with g ne t r show ?thesis by auto
  qed
qed

lemma groupStage_keys:
  "distinct (map (\<lambda>g. blockhash (fst g)) (groupStage xs)) \<and>
   set (map (\<lambda>g. blockhash (fst g)) (groupStage xs)) = blockhash ` set xs"
proof (induction xs rule: groupStage.induct)
  case 1
  then show ?case by simp
next
  case (2 x xs)
  let ?rest = "filter (\<lambda>u. blockhash u \<noteq> blockhash x) xs"
  from "2.IH" have d: "distinct (map (\<lambda>g. blockhash (fst g)) (groupStage ?rest))"
    and s: "set (map (\<lambda>g. blockhash (fst g)) (groupStage ?rest)) = blockhash ` set ?rest"
    by auto
  have "blockhash x \<notin> blockhash ` set ?rest" by auto
  moreover have "insert (blockhash x) (blockhash ` set ?rest) = blockhash ` set (x # xs)"
    by auto
  ultimately show ?case using d s by (simp del: set_map set_filter)
qed

lemma length_groupStage:
  "length (groupStage xs) = card (blockhash ` set xs)"
proof -
  let ?ks = "map (\<lambda>g. blockhash (fst g)) (groupStage xs)"
  from groupStage_keys[of xs] have d: "distinct ?ks" and s: "set ?ks = blockhash ` set xs"
    by blast+
  from distinct_card[OF d] have "card (set ?ks) = length ?ks" .
  with s show ?thesis by simp
qed

lemma length_blockStages:
  "length (blockStages docs) = length (remdups (map blockhash docs))"
  by (simp add: blockStages_def sortDesc_def length_groupStage length_remdups_card_conv)

lemma arrayElemAt0_filter_find: "arrayElemAt0 (filter P xs) = find P xs"
  by (induction xs) (auto simp: arrayElemAt0_def)

lemma blockStages_member:
  assumes "b \<in> set (blockStages docs)"
  shows "\<exists>first. first \<in> set docs \<and> hash b = blockhash first \<and> height b = blockindex first
           \<and> d_timestamp b = tx_timestamp first
           \<and> txCount b = int (length (filter (\<lambda>t. blockhash t = hash b) docs))
           \<and> minedBy b = minedByOf (sortDesc blockindex (filter (\<lambda>t. blockhash t = hash b) docs))"
proof -
  from assms obtain first g where m: "(first, g) \<in> set (groupStage (sortDesc blockindex docs))"
    and b: "b = derivedBlock (first, g)"
    by (auto simp: blockStages_def sortDesc_def)
  from groupStage_member[OF m]
  have f: "first \<in> set docs"
    and g: "g = filter (\<lambda>u. blockhash u = blockhash first) (sortDesc blockindex docs)"
    by (auto simp: sortDesc_def)
  have g': "g = sortDesc blockindex (filter (\<lambda>u. blockhash u = blockhash first) docs)"
    unfolding g sortDesc_def by (rule filter_sort)
  have len: "length g = length (filter (\<lambda>u. blockhash u = blockhash first) docs)"
    unfolding g' sortDesc_def by simp
  show ?thesis
    using f b g' len by (intro exI[of _ first]) (simp add: derivedBlock_def)
qed

lemma valid_page_skip:
  assumes "0 < limit" "page \<le> ceiling (rat_of_int n / rat_of_int limit)"
  shows "(page - 1) * limit < n"
proof -
  from assms(2) have "page - 1 < ceiling (rat_of_int n / rat_of_int limit)" by simp
  then have "rat_of_int (page - 1) < rat_of_int n / rat_of_int limit"
    by (simp only: less_ceiling_iff)
  with assms(1) have "rat_of_int (page - 1) * rat_of_int limit < rat_of_int n"
    by (simp add: pos_less_divide_eq)
  then have "rat_of_int ((page - 1) * limit) < rat_of_int n" by simp
  then show ?thesis by (simp only: of_int_less_iff)
qed

lemma getPaginatedBlocks_source:
  "getPaginatedBlocks conn page limit = Inr r \<Longrightarrow> b \<in> set (items r) \<Longrightarrow>
     \<exists>db. conn = Inr db \<and> b \<in> set (blockStages (col_txes db))"
  by (auto simp: getPaginatedBlocks_def andThen_def tryCatch_def collection_def stage_skip_def
        stage_limit_def Let_def
      split: sum.splits if_splits dest!: in_set_takeD in_set_dropD)

lemma getLatestBlocks_source:
  "b \<in> set (getLatestBlocks conn limit) \<Longrightarrow>
     \<exists>db. conn = Inr db \<and> b \<in> set (blockStages (col_txes db))"
  by (auto simp: getLatestBlocks_def andThen_def tryCatch_def collection_def
        stage_limit_def
      split: sum.splits if_splits dest!: in_set_takeD)

lemma minedByOf_none:
  "\<forall>t\<in>set g. \<not> coinbaseFirst t \<Longrightarrow> minedByOf (sortDesc blockindex g) = None"
proof -
  assume "\<forall>t\<in>set g. \<not> coinbaseFirst t"
  then have "filter coinbaseFirst (sortDesc blockindex g) = []"
    by (simp add: sortDesc_def filter_empty_conv)
  then show ?thesis by (simp add: minedByOf_def arrayElemAt0_def)
qed

lemma minedByOf_some:
  assumes "\<exists>t\<in>set g. coinbaseFirst t"
  shows "\<exists>t\<in>set g. coinbaseFirst t \<and>
           arrayElemAt0 (filter coinbaseFirst (sortDesc blockindex g)) = Some t \<and>
           minedByOf (sortDesc blockindex g) = arrayElemAt0 (map addresses (vout t))"
proof -
  from assms have "filter coinbaseFirst (sortDesc blockindex g) \<noteq> []"
    by (simp add: sortDesc_def filter_empty_conv)
  then obtain t r where tr: "filter coinbaseFirst (sortDesc blockindex g) = t # r"
    by (cases "filter coinbaseFirst (sortDesc blockindex g)") auto
  then have "t \<in> set (filter coinbaseFirst (sortDesc blockindex g))" by simp
  then have "t \<in> set g" "coinbaseFirst t" by (auto simp: sortDesc_def)
  with tr show ?thesis by (auto simp: minedByOf_def arrayElemAt0_def)
qed

lemma hash_derivedBlock: "hash (derivedBlock g) = blockhash (fst g)"
  by (cases g) (simp add: derivedBlock_def)

lemma blockStages_hashes: "hash ` set (blockStages docs) = blockhash ` set docs"
proof -
  have "hash ` set (blockStages docs)
          = set (map hash (map derivedBlock (groupStage (sortDesc blockindex docs))))"
    by (simp add: blockStages_def sortDesc_def image_image)
  also have "\<dots> = set (map (\<lambda>g. blockhash (fst g)) (groupStage (sortDesc blockindex docs)))"
    by (simp add: hash_derivedBlock comp_def)
  also have "\<dots> = blockhash ` set (sortDesc blockindex docs)"
    using groupStage_keys[of "sortDesc blockindex docs"] by blast
  also have "\<dots> = blockhash ` set docs"
    by (simp add: sortDesc_def)
  finally show ?thesis .
qed

lemma getLatestBlocks_all:
  assumes "''txes'' \<notin> set (rejected db)" "0 < limit"
    "int (card (blockhash ` set (col_txes db))) \<le> limit"
  shows "getLatestBlocks (Inr db) limit = blockStages (col_txes db)"
proof -
  have "length (blockStages (col_txes db)) = card (blockhash ` set (col_txes db))"
    by (simp add: length_blockStages length_remdups_card_conv)
  with assms show ?thesis
    by (simp add: getLatestBlocks_def andThen_def tryCatch_def collection_def stage_limit_def)
qed

text \<open>
  C1.  Every block \<open>b\<close> returned by \<open>getLatestBlocks\<close> or \<open>getPaginatedBlocks\<close> comes from
  the group \<open>g\<close> of the stored transactions with block hash \<open>hash b\<close>, which is not empty;
  \<open>txCount b\<close> is the size of \<open>g\<close>.  If no transaction of \<open>g\<close> has a coinbase-marked first
  input, \<open>minedBy b\<close> is null.  Otherwise \<open>minedBy b\<close> is the first output address (null
  for a transaction without outputs) of a transaction of \<open>g\<close> with a coinbase-marked first
  input: the first one in the order of the pipeline, which is the one there is when only
  one transaction of the group is so marked.  And every group has its block: when
  \<open>txes\<close> is read and \<open>limit\<close> is at least the number of block hashes, \<open>getLatestBlocks\<close>
  lists a block for the block hash of every stored transaction.
\<close>

theorem derived_block_txCount_minedBy:
  "(b \<in> set (getLatestBlocks conn limit)
      \<or> (\<exists>r. getPaginatedBlocks conn page limit = Inr r \<and> b \<in> set (items r)) \<longrightarrow>
      (\<exists>db g. conn = Inr db \<and> g = filter (\<lambda>t. blockhash t = hash b) (col_txes db) \<and>
           g \<noteq> [] \<and>
           txCount b = int (length g) \<and>
           ((\<forall>t\<in>set g. \<not> coinbaseFirst t) \<longrightarrow> minedBy b = None) \<and>
           ((\<exists>t\<in>set g. coinbaseFirst t) \<longrightarrow>
              (\<exists>t\<in>set g. coinbaseFirst t \<and>
                 find coinbaseFirst (sortDesc blockindex g) = Some t \<and>
                 minedBy b = arrayElemAt0 (map addresses (vout t)))) \<and>
           (\<forall>t\<in>set g. coinbaseFirst t \<and> (\<forall>u\<in>set g. coinbaseFirst u \<longrightarrow> u = t) \<longrightarrow>
              minedBy b = arrayElemAt0 (map addresses (vout t)))))
   \<and> (''txes'' \<notin> set (rejected db') \<and> 0 < limit \<and>
        int (card (blockhash ` set (col_txes db'))) \<le> limit \<and> t' \<in> set (col_txes db') \<longrightarrow>
        (\<exists>b'\<in>set (getLatestBlocks (Inr db') limit). hash b' = blockhash t'))"
proof (intro conjI impI)
  assume asm: "b \<in> set (getLatestBlocks conn limit)
           \<or> (\<exists>r. getPaginatedBlocks conn page limit = Inr r \<and> b \<in> set (items r))"
  then obtain db where conn: "conn = Inr db" and b: "b \<in> set (blockStages (col_txes db))"
    using getLatestBlocks_source getPaginatedBlocks_source by blast
  define g where "g = filter (\<lambda>t. blockhash t = hash b) (col_txes db)"
  from blockStages_member[OF b] obtain first where first: "first \<in> set (col_txes db)"
    "hash b = blockhash first" and cnt: "txCount b = int (length g)"
    and mined: "minedBy b = minedByOf (sortDesc blockindex g)"
    unfolding g_def by blast
  from first have ne: "g \<noteq> []" by (auto simp: g_def filter_empty_conv)
  have none: "(\<forall>t\<in>set g. \<not> coinbaseFirst t) \<longrightarrow> minedBy b = None"
    using mined minedByOf_none by simp
  have some: "(\<exists>t\<in>set g. coinbaseFirst t) \<longrightarrow>
              (\<exists>t\<in>set g. coinbaseFirst t \<and>
                 find coinbaseFirst (sortDesc blockindex g) = Some t \<and>
                 minedBy b = arrayElemAt0 (map addresses (vout t)))"
    using mined minedByOf_some[of g] by (auto simp: arrayElemAt0_filter_find)
  have uniq: "\<forall>t\<in>set g. coinbaseFirst t \<and> (\<forall>u\<in>set g. coinbaseFirst u \<longrightarrow> u = t) \<longrightarrow>
              minedBy b = arrayElemAt0 (map addresses (vout t))"
  proof (intro ballI impI)
    fix t assume t: "t \<in> set g" and u: "coinbaseFirst t \<and> (\<forall>u\<in>set g. coinbaseFirst u \<longrightarrow> u = t)"
    with some obtain t' where "t' \<in> set g" "coinbaseFirst t'"
      "minedBy b = arrayElemAt0 (map addresses (vout t'))" by blast
    with u show "minedBy b = arrayElemAt0 (map addresses (vout t))" by auto
  qed
  show "\<exists>db g. conn = Inr db \<and> g = filter (\<lambda>t. blockhash t = hash b) (col_txes db) \<and>
           g \<noteq> [] \<and>
           txCount b = int (length g) \<and>
           ((\<forall>t\<in>set g. \<not> coinbaseFirst t) \<longrightarrow> minedBy b = None) \<and>
           ((\<exists>t\<in>set g. coinbaseFirst t) \<longrightarrow>
              (\<exists>t\<in>set g. coinbaseFirst t \<and>
                 find coinbaseFirst (sortDesc blockindex g) = Some t \<and>
                 minedBy b = arrayElemAt0 (map addresses (vout t)))) \<and>
           (\<forall>t\<in>set g. coinbaseFirst t \<and> (\<forall>u\<in>set g. coinbaseFirst u \<longrightarrow> u = t) \<longrightarrow>
              minedBy b = arrayElemAt0 (map addresses (vout t)))"
    using conn ne cnt none some uniq unfolding g_def by blast
next
  assume h: "''txes'' \<notin> set (rejected db') \<and> 0 < limit \<and>
        int (card (blockhash ` set (col_txes db'))) \<le> limit \<and> t' \<in> set (col_txes db')"
  then have all: "getLatestBlocks (Inr db') limit = blockStages (col_txes db')"
    by (intro getLatestBlocks_all) simp_all
  from h have "blockhash t' \<in> hash ` set (blockStages (col_txes db'))"
    unfolding blockStages_hashes by simp
  then show "\<exists>b'\<in>set (getLatestBlocks (Inr db') limit). hash b' = blockhash t'"
    unfolding all by auto
qed

text \<open>
  In the example chain block \<open>h1\<close> is listed with its two transactions and the miner of
  its coinbase transaction \<open>c1\<close>; block \<open>h2\<close>, which has no coinbase transaction, is
  listed with no miner; and the block of the stored transaction \<open>p2\<close> is listed.
\<close>

theorem derived_block_txCount_minedBy_witness:
  "block_h1 \<in> set (getLatestBlocks (Inr example_db) 10)
   \<and> filter (\<lambda>t. blockhash t = hash block_h1) (col_txes example_db)
       = [example_txes ! 1, example_txes ! 2]
   \<and> txCount block_h1 = 2
   \<and> coinbaseFirst (example_txes ! 2)
   \<and> minedBy block_h1 = arrayElemAt0 (map addresses (vout (example_txes ! 2)))
   \<and> (\<exists>r b. getPaginatedBlocks (Inr example_db) 1 20 = Inr r \<and> b \<in> set (items r) \<and>
          hash b = ''h2'' \<and>
          filter (\<lambda>t. blockhash t = hash b) (col_txes example_db) = [example_txes ! 0] \<and>
          \<not> coinbaseFirst (example_txes ! 0) \<and> txCount b = 1 \<and> minedBy b = None)
   \<and> (\<exists>b'\<in>set (getLatestBlocks (Inr example_db) 10). hash b' = blockhash (example_txes ! 0))"
proof -
  have mem: "block_h1 \<in> set (getLatestBlocks (Inr example_db) 10)" by code_simp
  have grp: "filter (\<lambda>t. blockhash t = hash block_h1) (col_txes example_db)
       = [example_txes ! 1, example_txes ! 2]" by code_simp
  have cb: "coinbaseFirst (example_txes ! 2)" "\<not> coinbaseFirst (example_txes ! 1)"
    "\<not> coinbaseFirst (example_txes ! 0)" by code_simp+
  from derived_block_txCount_minedBy[of block_h1 "Inr example_db" 10 1, THEN conjunct1] mem
  obtain db g where "Inr example_db = (Inr db :: error + Database)"
    and g: "g = filter (\<lambda>t. blockhash t = hash block_h1) (col_txes db)"
    and cnt: "txCount block_h1 = int (length g)"
    and uniq: "\<forall>t\<in>set g. coinbaseFirst t \<and> (\<forall>u\<in>set g. coinbaseFirst u \<longrightarrow> u = t) \<longrightarrow>
              minedBy block_h1 = arrayElemAt0 (map addresses (vout t))"
    by blast
  then have g': "g = [example_txes ! 1, example_txes ! 2]" using grp by simp
  from cnt g' have c2: "txCount block_h1 = 2" by simp
  from uniq g' cb have m1: "minedBy block_h1 = arrayElemAt0 (map addresses (vout (example_txes ! 2)))"
    by auto
  define b where "b = \<lparr>d_id = ''h2'', height = 2, hash = ''h2'', d_timestamp = 200, txCount = 1,
                        minedBy = (None :: string option)\<rparr>"
  define r where "r = \<lparr>items = [\<lparr>d_id = ''h3'', height = 3, hash = ''h3'', d_timestamp = 300, txCount = 1, minedBy = Some ''miner3''\<rparr>, b, block_h1],
                        pagination = \<lparr>currentPage = 1, totalPages = Some 1, totalItems = 3\<rparr>\<rparr>"
  have run: "getPaginatedBlocks (Inr example_db) 1 20 = Inr r"
    unfolding r_def b_def block_h1_def by code_simp
  have bin: "b \<in> set (items r)" by (simp add: r_def)
  have hb: "hash b = ''h2''" by (simp add: b_def)
  have grp2: "filter (\<lambda>t. blockhash t = ''h2'') (col_txes example_db) = [example_txes ! 0]"
    by code_simp
  from derived_block_txCount_minedBy[of b "Inr example_db" 20 1, THEN conjunct1] run bin
  obtain db2 g2 where "Inr example_db = (Inr db2 :: error + Database)"
    and g2: "g2 = filter (\<lambda>t. blockhash t = hash b) (col_txes db2)"
    and cnt2: "txCount b = int (length g2)"
    and none2: "(\<forall>t\<in>set g2. \<not> coinbaseFirst t) \<longrightarrow> minedBy b = None"
    by blast
  then have g2': "g2 = [example_txes ! 0]" using grp2 hb by simp
  from cnt2 none2 g2' cb have res2: "txCount b = 1" "minedBy b = None" by auto
  from run bin hb grp2 cb(3) res2
  have second: "\<exists>r b. getPaginatedBlocks (Inr example_db) 1 20 = Inr r \<and> b \<in> set (items r) \<and>
          hash b = ''h2'' \<and>
          filter (\<lambda>t. blockhash t = hash b) (col_txes example_db) = [example_txes ! 0] \<and>
          \<not> coinbaseFirst (example_txes ! 0) \<and> txCount b = 1 \<and> minedBy b = None"
    by auto
  have ok: "''txes'' \<notin> set (rejected example_db)" "(0::int) < 10"
    "int (card (blockhash ` set (col_txes example_db))) \<le> 10"
    "example_txes ! 0 \<in> set (col_txes example_db)"
    by code_simp+
  from derived_block_txCount_minedBy[of _ _ 10 _ example_db "example_txes ! 0", THEN conjunct2] ok
  have third: "\<exists>b'\<in>set (getLatestBlocks (Inr example_db) 10). hash b' = blockhash (example_txes ! 0)"
    by blast
  from mem grp c2 cb(1) m1 second third show ?thesis by blast
qed

section \<open>Pagination: number of pages and size of a page\<close>

lemma getPaginatedBlocks_ok:
  assumes "''txes'' \<notin> set (rejected db)" "0 < limit" "1 \<le> page"
  shows "getPaginatedBlocks (Inr db) page limit =
           Inr \<lparr>items = take (nat limit) (drop (nat ((page - 1) * limit)) (blockStages (col_txes db))),
                pagination = \<lparr>currentPage = page,
                  totalPages = Some (ceiling (rat_of_int (int (length (remdups (map blockhash (col_txes db))))) / rat_of_int limit)),
                  totalItems = int (length (remdups (map blockhash (col_txes db))))\<rparr>\<rparr>"
proof -
  from assms have "\<not> (page - 1) * limit < 0" by (simp add: mult_less_0_iff)
  with assms show ?thesis
    by (simp add: getPaginatedBlocks_def andThen_def tryCatch_def collection_def stage_skip_def
        stage_limit_def ceilDiv_def Let_def)
qed

lemma getPaginatedTransactions_ok:
  assumes "''txes'' \<notin> set (rejected db)" "0 < limit" "1 \<le> page"
  shows "getPaginatedTransactions (Inr db) page limit =
           Inr \<lparr>items = take (nat limit) (drop (nat ((page - 1) * limit)) (sortDesc tx_timestamp (col_txes db))),
                pagination = \<lparr>currentPage = page,
                  totalPages = Some (ceiling (rat_of_int (int (length (col_txes db))) / rat_of_int limit)),
                  totalItems = int (length (col_txes db))\<rparr>\<rparr>"
proof -
  from assms have "\<not> (page - 1) * limit < 0" by (simp add: mult_less_0_iff)
  with assms show ?thesis
    by (simp add: getPaginatedTransactions_def andThen_def collection_def cursor_skip_def
        cursor_limit_def ceilDiv_def Let_def)
qed

lemma slice_length_valid:
  "0 < limit \<Longrightarrow> 0 \<le> skip \<Longrightarrow> skip < int (length xs) \<Longrightarrow>
     int (length (take (nat limit) (drop (nat skip) xs))) = min limit (int (length xs) - skip)"
  by auto

lemma page_slice:
  assumes "0 < limit" "1 \<le> page"
  shows "int (length (take (nat limit) (drop (nat ((page - 1) * limit)) xs))) \<le> limit"
    and "page \<le> ceiling (rat_of_int (int (length xs)) / rat_of_int limit) \<Longrightarrow>
         int (length (take (nat limit) (drop (nat ((page - 1) * limit)) xs)))
           = min limit (int (length xs) - (page - 1) * limit)"
proof -
  from assms have sk: "0 \<le> (page - 1) * limit" by simp
  show "int (length (take (nat limit) (drop (nat ((page - 1) * limit)) xs))) \<le> limit"
    using assms by simp
  assume "page \<le> ceiling (rat_of_int (int (length xs)) / rat_of_int limit)"
  from valid_page_skip[OF assms(1) this] have "(page - 1) * limit < int (length xs)" .
  from slice_length_valid[OF assms(1) sk this]
  show "int (length (take (nat limit) (drop (nat ((page - 1) * limit)) xs)))
           = min limit (int (length xs) - (page - 1) * limit)" .
qed

text \<open>
  C2.  When the \<open>txes\<close> collection is read, for every \<open>limit > 0\<close> and \<open>page \<ge> 1\<close>, both
  \<open>getPaginatedBlocks\<close> (where \<open>totalCount\<close> is the number of distinct block hashes) and
  \<open>getPaginatedTransactions\<close> (where it is the number of transactions) return
  \<open>totalItems = totalCount\<close> and \<open>totalPages = ceil(totalCount / limit)\<close>; the returned
  list is never longer than \<open>limit\<close>, and for a page up to \<open>totalPages\<close> its length is
  \<open>min(limit, totalCount - (page - 1) * limit)\<close>.
\<close>

theorem pagination_totalPages_and_slice:
  assumes "''txes'' \<notin> set (rejected db)" "0 < limit" "1 \<le> page"
  shows "(\<exists>r totalCount.
           getPaginatedBlocks (Inr db) page limit = Inr r \<and>
           totalCount = int (card (blockhash ` set (col_txes db))) \<and>
           totalItems (pagination r) = totalCount \<and>
           totalPages (pagination r) = Some (ceiling (rat_of_int totalCount / rat_of_int limit)) \<and>
           int (length (items r)) \<le> limit \<and>
           (page \<le> ceiling (rat_of_int totalCount / rat_of_int limit) \<longrightarrow>
              int (length (items r)) = min limit (totalCount - (page - 1) * limit)))
       \<and> (\<exists>r totalCount.
           getPaginatedTransactions (Inr db) page limit = Inr r \<and>
           totalCount = int (length (col_txes db)) \<and>
           totalItems (pagination r) = totalCount \<and>
           totalPages (pagination r) = Some (ceiling (rat_of_int totalCount / rat_of_int limit)) \<and>
           int (length (items r)) \<le> limit \<and>
           (page \<le> ceiling (rat_of_int totalCount / rat_of_int limit) \<longrightarrow>
              int (length (items r)) = min limit (totalCount - (page - 1) * limit)))"
proof -
  have n: "length (remdups (map blockhash (col_txes db))) = card (blockhash ` set (col_txes db))"
    by (simp add: length_remdups_card_conv)
  have len: "length (blockStages (col_txes db)) = card (blockhash ` set (col_txes db))"
    by (simp add: length_blockStages n)
  have blocks: "\<exists>r totalCount.
           getPaginatedBlocks (Inr db) page limit = Inr r \<and>
           totalCount = int (card (blockhash ` set (col_txes db))) \<and>
           totalItems (pagination r) = totalCount \<and>
           totalPages (pagination r) = Some (ceiling (rat_of_int totalCount / rat_of_int limit)) \<and>
           int (length (items r)) \<le> limit \<and>
           (page \<le> ceiling (rat_of_int totalCount / rat_of_int limit) \<longrightarrow>
              int (length (items r)) = min limit (totalCount - (page - 1) * limit))"
    using page_slice[OF assms(2,3), of "blockStages (col_txes db)"]
    unfolding getPaginatedBlocks_ok[OF assms] n len by simp
  have transactions: "\<exists>r totalCount.
           getPaginatedTransactions (Inr db) page limit = Inr r \<and>
           totalCount = int (length (col_txes db)) \<and>
           totalItems (pagination r) = totalCount \<and>
           totalPages (pagination r) = Some (ceiling (rat_of_int totalCount / rat_of_int limit)) \<and>
           int (length (items r)) \<le> limit \<and>
           (page \<le> ceiling (rat_of_int totalCount / rat_of_int limit) \<longrightarrow>
              int (length (items r)) = min limit (totalCount - (page - 1) * limit))"
    using page_slice[OF assms(2,3), of "sortDesc tx_timestamp (col_txes db)"]
    unfolding getPaginatedTransactions_ok[OF assms] by (simp add: sortDesc_def)
  from blocks transactions show ?thesis by (rule conjI)
qed

text \<open>
  The example chain has three blocks and four transactions.  With two blocks to a page,
  page 2 of 2 holds one block; with three transactions to a page, page 2 of 2 holds one
  transaction.
\<close>

theorem pagination_totalPages_and_slice_witness:
  "''txes'' \<notin> set (rejected example_db)
   \<and> (\<exists>r. getPaginatedBlocks (Inr example_db) 2 2 = Inr r \<and>
          totalItems (pagination r) = 3 \<and> totalPages (pagination r) = Some 2 \<and>
          int (length (items r)) = 1)
   \<and> (\<exists>r. getPaginatedTransactions (Inr example_db) 2 3 = Inr r \<and>
          totalItems (pagination r) = 4 \<and> totalPages (pagination r) = Some 2 \<and>
          int (length (items r)) = 1)"
proof -
  have ok: "''txes'' \<notin> set (rejected example_db)" by (simp add: example_db_def)
  have nb: "int (card (blockhash ` set (col_txes example_db))) = 3" by code_simp
  have nt: "int (length (col_txes example_db)) = 4" by code_simp
  have cb: "ceiling (3 / 2 :: rat) = 2" by code_simp
  have ct: "ceiling (4 / 3 :: rat) = 2" by code_simp
  have two: "(0::int) < 2" "(1::int) \<le> 2" "(0::int) < 3" by simp_all
  from pagination_totalPages_and_slice[OF ok two(1) two(2)]
  obtain r where "getPaginatedBlocks (Inr example_db) 2 2 = Inr r"
    "totalItems (pagination r) = 3"
    "totalPages (pagination r) = Some (ceiling (rat_of_int 3 / rat_of_int 2))"
    "2 \<le> ceiling (rat_of_int 3 / rat_of_int 2) \<longrightarrow> int (length (items r)) = min 2 (3 - (2 - 1) * 2)"
    unfolding nb by blast
  then have b: "\<exists>r. getPaginatedBlocks (Inr example_db) 2 2 = Inr r \<and>
          totalItems (pagination r) = 3 \<and> totalPages (pagination r) = Some 2 \<and>
          int (length (items r)) = 1"
    by (simp add: cb)
  from pagination_totalPages_and_slice[OF ok two(3) two(2)]
  obtain r' where "getPaginatedTransactions (Inr example_db) 2 3 = Inr r'"
    "totalItems (pagination r') = 4"
    "totalPages (pagination r') = Some (ceiling (rat_of_int 4 / rat_of_int 3))"
    "2 \<le> ceiling (rat_of_int 4 / rat_of_int 3) \<longrightarrow> int (length (items r')) = min 3 (4 - (2 - 1) * 3)"
    unfolding nt by blast
  then have t: "\<exists>r. getPaginatedTransactions (Inr example_db) 2 3 = Inr r \<and>
          totalItems (pagination r) = 4 \<and> totalPages (pagination r) = Some 2 \<and>
          int (length (items r)) = 1"
    by (simp add: ct)
  from ok b t show ?thesis by blast
qed

section \<open>Address history: unmatched index records\<close>

lemma joinTimestamps_ok:
  "''txes'' \<notin> set (rejected db) \<Longrightarrow>
   joinTimestamps db xs =
     Inr (map (\<lambda>a. \<lparr>indexRecord = a,
                     at_timestamp = tx_timestamp (hd (filter (\<lambda>d. txid d = a_txid a) (col_txes db)))\<rparr>)
              (filter (\<lambda>a. \<exists>d\<in>set (col_txes db). txid d = a_txid a) xs))"
proof (induction xs)
  case Nil
  then show ?case by simp
next
  case (Cons a xs)
  show ?case
  proof (cases "filter (\<lambda>d. txid d = a_txid a) (col_txes db)")
    case Nil
    then have "\<not> (\<exists>d\<in>set (col_txes db). txid d = a_txid a)"
      by (simp add: filter_empty_conv)
    with Cons Nil show ?thesis
      by (simp add: andThen_def collection_def findOne_def)
  next
    case (Cons d ds)
    then have "d \<in> set (filter (\<lambda>d. txid d = a_txid a) (col_txes db))" by simp
    then have "\<exists>d\<in>set (col_txes db). txid d = a_txid a" by auto
    with Cons.IH Cons.prems Cons show ?thesis
      by (simp add: andThen_def collection_def findOne_def)
  qed
qed

lemma joinTimestamps_result:
  "joinTimestamps db xs = Inr ys \<Longrightarrow>
     map indexRecord ys = filter (\<lambda>a. \<exists>d\<in>set (col_txes db). txid d = a_txid a) xs"
proof (induction xs arbitrary: ys)
  case Nil
  then show ?case by simp
next
  case (Cons a xs)
  from Cons.prems obtain docs where docs: "collection db ''txes'' col_txes = Inr docs"
    by (cases "collection db ''txes'' col_txes") (auto simp: andThen_def)
  then have d: "docs = col_txes db" by (auto simp: collection_def split: if_splits)
  from Cons.prems docs obtain zs where zs: "joinTimestamps db xs = Inr zs"
    by (cases "joinTimestamps db xs") (auto simp: andThen_def)
  note ih = Cons.IH[OF zs]
  show ?case
  proof (cases "filter (\<lambda>d. txid d = a_txid a) (col_txes db)")
    case Nil
    then have "\<not> (\<exists>d\<in>set (col_txes db). txid d = a_txid a)"
      by (simp add: filter_empty_conv)
    with Cons.prems docs d zs ih Nil show ?thesis
      by (auto simp: andThen_def findOne_def)
  next
    case (Cons e es)
    then have "e \<in> set (filter (\<lambda>d. txid d = a_txid a) (col_txes db))" by simp
    then have "\<exists>d\<in>set (col_txes db). txid d = a_txid a" by auto
    with Cons.prems docs d zs ih Cons show ?thesis
      by (auto simp: andThen_def findOne_def)
  qed
qed

lemma getPaginatedAddressTransactions_eq:
  "getPaginatedAddressTransactions (Inr db) address page limit =
     (if ''addresstxes'' \<in> set (rejected db) \<or> (page - 1) * limit < 0 then Inl StorageError
      else case joinTimestamps db
                  (cursor_limit limit
                    (drop (nat ((page - 1) * limit))
                      (sortDesc a_blockindex (filter (\<lambda>a. a_id a = address) (col_addresstxes db))))) of
             Inl e \<Rightarrow> Inl e
           | Inr ys \<Rightarrow>
               Inr \<lparr>items = ys,
                    pagination = \<lparr>currentPage = page,
                      totalPages = ceilDiv (int (length (filter (\<lambda>a. a_id a = address) (col_addresstxes db)))) limit,
                      totalItems = int (length (filter (\<lambda>a. a_id a = address) (col_addresstxes db)))\<rparr>\<rparr>)"
  by (simp add: getPaginatedAddressTransactions_def andThen_def collection_def cursor_skip_def
      Let_def split: sum.splits)

lemma cursor_limit_subset: "set (cursor_limit n xs) \<subseteq> set xs"
  by (auto simp: cursor_limit_def dest: in_set_takeD)

text \<open>
  C7.  \<open>getPaginatedAddressTransactions\<close> returns whenever \<open>addresstxes\<close> and \<open>txes\<close>
  are read, \<open>page \<ge> 1\<close> and \<open>limit \<ge> 0\<close>.  When it returns, \<open>pagination.totalItems\<close> is the
  number of index records of the address, whether or not their transactions exist.  The
  returned records are, in order, the index records of the requested page (the index
  records of the address sorted by \<open>blockindex\<close> descending, after \<open>skip\<close> and
  \<open>limit\<close>) whose \<open>txid\<close> is the \<open>txid\<close> of a stored transaction: every returned
  record belongs to the address and has a transaction, and no index record without a
  transaction is returned.
\<close>

theorem address_join_drops_unmatched:
  "(getPaginatedAddressTransactions conn address page limit = Inr r \<longrightarrow>
      (\<exists>db. conn = Inr db \<and>
           totalItems (pagination r) =
             int (length (filter (\<lambda>a. a_id a = address) (col_addresstxes db))) \<and>
           map indexRecord (items r) =
             filter (\<lambda>a. \<exists>d\<in>set (col_txes db). txid d = a_txid a)
               (cursor_limit limit
                 (drop (nat ((page - 1) * limit))
                   (sortDesc a_blockindex
                     (filter (\<lambda>a. a_id a = address) (col_addresstxes db))))) \<and>
           (\<forall>v\<in>set (items r). a_id (indexRecord v) = address \<and>
              (\<exists>d\<in>set (col_txes db). txid d = a_txid (indexRecord v))) \<and>
           (\<forall>a\<in>set (col_addresstxes db).
              (\<forall>d\<in>set (col_txes db). txid d \<noteq> a_txid a) \<longrightarrow>
                a \<notin> indexRecord ` set (items r))))
   \<and> (''addresstxes'' \<notin> set (rejected db') \<and> ''txes'' \<notin> set (rejected db') \<and>
        1 \<le> page \<and> 0 \<le> limit \<longrightarrow>
        (\<exists>r'. getPaginatedAddressTransactions (Inr db') address page limit = Inr r'))"
proof (intro conjI impI)
  assume res: "getPaginatedAddressTransactions conn address page limit = Inr r"
  then obtain db where conn: "conn = Inr db"
    by (cases conn) (simp_all add: getPaginatedAddressTransactions_def andThen_def)
  let ?mine = "filter (\<lambda>a. a_id a = address) (col_addresstxes db)"
  let ?page = "cursor_limit limit (drop (nat ((page - 1) * limit)) (sortDesc a_blockindex ?mine))"
  from res[unfolded conn getPaginatedAddressTransactions_eq]
  obtain ys where ys: "joinTimestamps db ?page = Inr ys"
    and r: "items r = ys" "totalItems (pagination r) = int (length ?mine)"
    by (cases "joinTimestamps db ?page") (auto split: if_splits)
  have sub: "set ?page \<subseteq> set ?mine"
    using cursor_limit_subset[of limit "drop (nat ((page - 1) * limit)) (sortDesc a_blockindex ?mine)"]
      set_drop_subset[of "nat ((page - 1) * limit)" "sortDesc a_blockindex ?mine"]
    by (auto simp: sortDesc_def)
  from joinTimestamps_result[OF ys]
  have m: "map indexRecord (items r) =
             filter (\<lambda>a. \<exists>d\<in>set (col_txes db). txid d = a_txid a) ?page"
    using r by simp
  then have "set (map indexRecord ys) =
               set (filter (\<lambda>a. \<exists>d\<in>set (col_txes db). txid d = a_txid a) ?page)"
    using r by simp
  then have s: "indexRecord ` set ys =
                  {a \<in> set ?page. \<exists>d\<in>set (col_txes db). txid d = a_txid a}"
    by simp
  have a: "\<forall>v\<in>set (items r). a_id (indexRecord v) = address \<and>
              (\<exists>d\<in>set (col_txes db). txid d = a_txid (indexRecord v))"
  proof
    fix v assume "v \<in> set (items r)"
    then have "indexRecord v \<in> indexRecord ` set ys" using r by simp
    then have "indexRecord v \<in> set ?page"
      "\<exists>d\<in>set (col_txes db). txid d = a_txid (indexRecord v)"
      unfolding s by simp_all
    with sub show "a_id (indexRecord v) = address \<and>
              (\<exists>d\<in>set (col_txes db). txid d = a_txid (indexRecord v))" by auto
  qed
  have b: "\<forall>a\<in>set (col_addresstxes db).
              (\<forall>d\<in>set (col_txes db). txid d \<noteq> a_txid a) \<longrightarrow> a \<notin> indexRecord ` set (items r)"
    unfolding r s by simp
  from conn r m a b
  show "\<exists>db. conn = Inr db \<and>
           totalItems (pagination r) =
             int (length (filter (\<lambda>a. a_id a = address) (col_addresstxes db))) \<and>
           map indexRecord (items r) =
             filter (\<lambda>a. \<exists>d\<in>set (col_txes db). txid d = a_txid a)
               (cursor_limit limit
                 (drop (nat ((page - 1) * limit))
                   (sortDesc a_blockindex
                     (filter (\<lambda>a. a_id a = address) (col_addresstxes db))))) \<and>
           (\<forall>v\<in>set (items r). a_id (indexRecord v) = address \<and>
              (\<exists>d\<in>set (col_txes db). txid d = a_txid (indexRecord v))) \<and>
           (\<forall>a\<in>set (col_addresstxes db).
              (\<forall>d\<in>set (col_txes db). txid d \<noteq> a_txid a) \<longrightarrow>
                a \<notin> indexRecord ` set (items r))"
    by blast
next
  assume h: "''addresstxes'' \<notin> set (rejected db') \<and> ''txes'' \<notin> set (rejected db') \<and>
        1 \<le> page \<and> 0 \<le> limit"
  then have "\<not> (page - 1) * limit < 0" by (simp add: mult_less_0_iff)
  with h show "\<exists>r'. getPaginatedAddressTransactions (Inr db') address page limit = Inr r'"
    by (simp add: getPaginatedAddressTransactions_eq joinTimestamps_ok)
qed

text \<open>
  In the example index \<open>bob\<close> has three records; the one for \<open>gone\<close> has no transaction.
  Two records are returned, both of \<open>bob\<close>, and \<open>totalItems\<close> is still 3.  The second
  page of size 2 is returned as well.
\<close>

theorem address_join_drops_unmatched_witness:
  "(\<exists>r. getPaginatedAddressTransactions (Inr example_db) ''bob'' 1 20 = Inr r \<and>
        totalItems (pagination r) = 3 \<and>
        map a_txid (map indexRecord (items r)) = [''p2'', ''p1''] \<and>
        a_id ` indexRecord ` set (items r) = {''bob''} \<and>
        \<lparr>a_id = ''bob'', a_txid = ''gone'', a_blockindex = 2, a_amount = 7\<rparr>
          \<notin> indexRecord ` set (items r))
   \<and> (\<exists>r'. getPaginatedAddressTransactions (Inr example_db) ''bob'' 2 2 = Inr r')"
proof -
  define r where "r =
    \<lparr>items =
        [\<lparr>indexRecord = \<lparr>a_id = ''bob'', a_txid = ''p2'', a_blockindex = 2, a_amount = - 20\<rparr>,
          at_timestamp = 200\<rparr>,
         \<lparr>indexRecord = \<lparr>a_id = ''bob'', a_txid = ''p1'', a_blockindex = 1, a_amount = 50\<rparr>,
          at_timestamp = 100\<rparr>],
      pagination = \<lparr>currentPage = 1, totalPages = Some 1, totalItems = 3\<rparr>\<rparr>"
  have run: "getPaginatedAddressTransactions (Inr example_db) ''bob'' 1 20 = Inr r"
    unfolding r_def by code_simp
  have gone: "\<lparr>a_id = ''bob'', a_txid = ''gone'', a_blockindex = 2, a_amount = 7\<rparr>
                \<in> set (col_addresstxes example_db)"
    "\<forall>d\<in>set (col_txes example_db). txid d \<noteq> ''gone''"
    by (simp_all add: example_db_def example_txes_def)
  have n: "int (length (filter (\<lambda>a. a_id a = ''bob'') (col_addresstxes example_db))) = 3"
    by (simp add: example_db_def)
  have ne: "set (items r) \<noteq> {}" by (simp add: r_def)
  from address_join_drops_unmatched[of "Inr example_db" "''bob''" 1 20 r, THEN conjunct1] run
  have "totalItems (pagination r) =
          int (length (filter (\<lambda>a. a_id a = ''bob'') (col_addresstxes example_db)))"
    and own: "\<forall>v\<in>set (items r). a_id (indexRecord v) = ''bob''"
    and "\<forall>a\<in>set (col_addresstxes example_db).
           (\<forall>d\<in>set (col_txes example_db). txid d \<noteq> a_txid a) \<longrightarrow> a \<notin> indexRecord ` set (items r)"
    by auto
  with gone n have "totalItems (pagination r) = 3"
    "\<lparr>a_id = ''bob'', a_txid = ''gone'', a_blockindex = 2, a_amount = 7\<rparr>
       \<notin> indexRecord ` set (items r)"
    by auto
  moreover have "map a_txid (map indexRecord (items r)) = [''p2'', ''p1'']"
    by (simp add: r_def)
  moreover have "a_id ` indexRecord ` set (items r) = {''bob''}"
  proof -
    from ne obtain v where v: "v \<in> set (items r)" by (cases "items r") auto
    with own have "a_id (indexRecord v) = ''bob''" by simp
    with v have "''bob'' \<in> a_id ` indexRecord ` set (items r)" by force
    moreover from own have "a_id ` indexRecord ` set (items r) \<subseteq> {''bob''}" by auto
    ultimately show ?thesis by blast
  qed
  ultimately have "getPaginatedAddressTransactions (Inr example_db) ''bob'' 1 20 = Inr r \<and>
        totalItems (pagination r) = 3 \<and>
        map a_txid (map indexRecord (items r)) = [''p2'', ''p1''] \<and>
        a_id ` indexRecord ` set (items r) = {''bob''} \<and>
        \<lparr>a_id = ''bob'', a_txid = ''gone'', a_blockindex = 2, a_amount = 7\<rparr>
          \<notin> indexRecord ` set (items r)"
    using run by simp
  then have first: "\<exists>r. getPaginatedAddressTransactions (Inr example_db) ''bob'' 1 20 = Inr r \<and>
        totalItems (pagination r) = 3 \<and>
        map a_txid (map indexRecord (items r)) = [''p2'', ''p1''] \<and>
        a_id ` indexRecord ` set (items r) = {''bob''} \<and>
        \<lparr>a_id = ''bob'', a_txid = ''gone'', a_blockindex = 2, a_amount = 7\<rparr>
          \<notin> indexRecord ` set (items r)"
    by (rule exI)
  have ok: "''addresstxes'' \<notin> set (rejected example_db)" "''txes'' \<notin> set (rejected example_db)"
    by (simp_all add: example_db_def)
  from address_join_drops_unmatched[of _ "''bob''" 2 2 _ example_db, THEN conjunct2] ok
  have second: "\<exists>r'. getPaginatedAddressTransactions (Inr example_db) ''bob'' 2 2 = Inr r'"
    by simp
  from first second show ?thesis by (rule conjI)
qed

section \<open>Difficulty history: the cascade of sources\<close>

lemma cursor_limit_Nil_iff: "cursor_limit n xs = [] \<longleftrightarrow> xs = []"
  by (cases xs) (auto simp: cursor_limit_def nat_eq_iff)

lemma sortDesc_Nil_iff: "sortDesc k xs = [] \<longleftrightarrow> xs = []"
  by (metis length_0_conv length_sort sortDesc_def)

lemma sortDesc_Nil: "sortDesc k [] = []"
  by (simp add: sortDesc_def)

lemma cursor_limit_1: "cursor_limit 1 xs = (case xs of [] \<Rightarrow> [] | x # _ \<Rightarrow> [x])"
  by (cases xs) (simp_all add: cursor_limit_def)

lemma getDifficultyHistory_eq:
  assumes "''networkhistories'' \<notin> set (rejected db)" "''blocks'' \<notin> set (rejected db)"
    "''txes'' \<notin> set (rejected db)"
  shows "getDifficultyHistory (Inr db) limit =
     Inr (if col_networkhistories db \<noteq> []
          then fromNetworkHistory (cursor_limit limit (sortDesc nh_blockindex (col_networkhistories db)))
          else if col_blocks db \<noteq> []
          then fromBlocks (cursor_limit limit (sortDesc b_height (col_blocks db)))
          else (case sortDesc blockindex (col_txes db) of
                  [] \<Rightarrow> []
                | latest # _ \<Rightarrow> fromTxes (col_txes db) [] (blockindex latest) limit))"
  using assms
  by (simp add: getDifficultyHistory_def andThen_def tryCatch_def collection_def Let_def
      cursor_limit_Nil_iff sortDesc_Nil_iff sortDesc_Nil cursor_limit_1 split: list.splits)

lemma sorted_fromNetworkHistory: "sorted (map blockHeight (fromNetworkHistory xs))"
  by (simp add: fromNetworkHistory_def sortAsc_def comp_def)

lemma sorted_fromBlocks: "sorted (map blockHeight (fromBlocks xs))"
  by (simp add: fromBlocks_def sortAsc_def comp_def)

lemma sorted_fromTxes: "sorted (map blockHeight (fromTxes docs hs latest limit))"
  by (simp add: fromTxes_def sortAsc_def Let_def)

lemma heights_fromTxes:
  "set (map blockHeight (fromTxes docs hs latest limit)) =
     {h. max 1 (latest - limit + 1) \<le> h \<and> h < max 1 (latest - limit + 1) + limit \<and> h \<le> latest
         \<and> (\<exists>t\<in>set docs. blockindex t = h)}"
proof -
  let ?start = "max 1 (latest - limit + 1)"
  let ?hs = "filter (\<lambda>h. h \<le> latest) (map (\<lambda>i. ?start + int i) [0 ..< nat limit])"
  have win: "set ?hs = {h. ?start \<le> h \<and> h < ?start + limit \<and> h \<le> latest}"
  proof (intro set_eqI iffI)
    fix h assume "h \<in> set ?hs"
    then show "h \<in> {h. ?start \<le> h \<and> h < ?start + limit \<and> h \<le> latest}" by auto
  next
    fix h assume "h \<in> {h. ?start \<le> h \<and> h < ?start + limit \<and> h \<le> latest}"
    then have h: "?start \<le> h" "h < ?start + limit" "h \<le> latest" by auto
    then have "nat (h - ?start) < nat limit" "h = ?start + int (nat (h - ?start))" by auto
    then have "h \<in> (\<lambda>i. ?start + int i) ` {0 ..< nat limit}"
      by (metis atLeastLessThan_iff image_eqI zero_le)
    with h show "h \<in> set ?hs" by simp
  qed
  let ?f = "\<lambda>h. case findOne (filter (\<lambda>t. blockindex t = h) docs) of
                None \<Rightarrow> []
              | Some tx \<Rightarrow>
                  [\<lparr>blockHeight = h,
                    dp_difficulty =
                      (case findOne (sortDesc nh_blockindex
                                      (filter (\<lambda>n. nh_blockindex n \<le> h) hs)) of
                         None \<Rightarrow> 0
                       | Some n \<Rightarrow> orElse (difficulty_pow n) 0),
                    dp_timestamp = tx_timestamp tx\<rparr>]"
  have pt: "\<And>h. blockHeight ` set (?f h) = (if \<exists>t\<in>set docs. blockindex t = h then {h} else {})"
    by (auto simp: findOne_def filter_empty_conv split: list.splits)
  have unf: "fromTxes docs hs latest limit = sort_key blockHeight (concat (map ?f ?hs))"
    unfolding fromTxes_def Let_def sortAsc_def by (rule refl)
  have "set (map blockHeight (fromTxes docs hs latest limit)) = (\<Union>h\<in>set ?hs. blockHeight ` set (?f h))"
    unfolding unf by (simp only: set_map set_sort set_concat image_UN image_image)
  also have "\<dots> = (\<Union>h\<in>set ?hs. if \<exists>t\<in>set docs. blockindex t = h then {h} else {})"
    by (simp only: pt)
  also have "\<dots> = {h \<in> set ?hs. \<exists>t\<in>set docs. blockindex t = h}" by auto
  finally show ?thesis unfolding win by auto
qed

lemma sortDesc_head_Max:
  assumes "sortDesc k xs = y # ys"
  shows "k y = Max (k ` set xs)"
proof -
  have "sorted (map (\<lambda>x. - k x) (sort_key (\<lambda>x. - k x) xs))"
    by (rule sorted_sort_key)
  then have s: "sorted (map (\<lambda>x. - k x) (y # ys))"
    using assms by (simp only: sortDesc_def)
  have set: "set (y # ys) = set xs"
    using assms by (metis set_sort sortDesc_def)
  from s have "\<forall>z\<in>set ys. k z \<le> k y" by auto
  with set have "\<forall>z\<in>set xs. k z \<le> k y" by auto
  moreover from set have "y \<in> set xs" by auto
  ultimately show ?thesis by (intro Max_eqI[symmetric]) auto
qed

lemma cursor_limit_all:
  "limit = 0 \<or> int (length xs) \<le> \<bar>limit\<bar> \<Longrightarrow> cursor_limit limit xs = xs"
  by (auto simp: cursor_limit_def)

lemma length_cursor_limit_pos:
  "0 < limit \<Longrightarrow> int (length (cursor_limit limit xs)) = min (int (length xs)) limit"
  by (auto simp: cursor_limit_def)

lemma length_fromBlocks: "length (fromBlocks xs) = length xs"
  by (simp add: fromBlocks_def sortAsc_def)

lemma findOne_filter_find: "findOne (filter P xs) = find P xs"
  by (induction xs) (simp_all add: findOne_def)

lemma findOne_Nil: "findOne [] = None"
  by (simp add: findOne_def)

lemma find_Some_ex: "find P xs = Some x \<Longrightarrow> \<exists>t\<in>set xs. P t"
  by (induction xs) (auto split: if_splits)

lemma sorted_window: "sorted (filter (\<lambda>h. h \<le> latest) (map (\<lambda>i. s + int i) [0 ..< n]))"
proof -
  have "sorted (map (\<lambda>i. s + int i) [0 ..< n])"
    by (simp add: sorted_iff_nth_mono)
  then show ?thesis
    using sorted_filter[of "\<lambda>x. x" "map (\<lambda>i. s + int i) [0 ..< n]" "\<lambda>h. h \<le> latest"]
    by simp
qed

lemma heights_points:
  "map blockHeight
     (concat (map (\<lambda>h. case find (\<lambda>t. blockindex t = h) docs of
                          None \<Rightarrow> []
                        | Some tx \<Rightarrow> [\<lparr>blockHeight = h, dp_difficulty = 0,
                                       dp_timestamp = tx_timestamp tx\<rparr>]) hs)) =
   filter (\<lambda>h. \<exists>t\<in>set docs. blockindex t = h) hs"
  by (induction hs) (auto simp: find_None_iff split: option.splits dest: find_Some_ex)

lemma fromTxes_no_history:
  "fromTxes docs [] latest limit =
     concat (map (\<lambda>h. case find (\<lambda>t. blockindex t = h) docs of
                         None \<Rightarrow> []
                       | Some tx \<Rightarrow> [\<lparr>blockHeight = h, dp_difficulty = 0,
                                      dp_timestamp = tx_timestamp tx\<rparr>])
       (filter (\<lambda>h. h \<le> latest)
         (map (\<lambda>i. max 1 (latest - limit + 1) + int i) [0 ..< nat limit])))"
proof -
  let ?hs = "filter (\<lambda>h. h \<le> latest)
               (map (\<lambda>i. max 1 (latest - limit + 1) + int i) [0 ..< nat limit])"
  let ?f = "\<lambda>h. case find (\<lambda>t. blockindex t = h) docs of
                   None \<Rightarrow> []
                 | Some tx \<Rightarrow> [\<lparr>blockHeight = h, dp_difficulty = 0,
                                dp_timestamp = tx_timestamp tx\<rparr>]"
  have unf: "fromTxes docs [] latest limit = sort_key blockHeight (concat (map ?f ?hs))"
    unfolding fromTxes_def Let_def sortAsc_def findOne_filter_find filter.simps(1) sortDesc_Nil
      findOne_Nil option.case(1)
    by (rule refl)
  have "sorted (map blockHeight (concat (map ?f ?hs)))"
    unfolding heights_points using sorted_window sorted_filter[of "\<lambda>x. x" ?hs] by simp
  then have "sort_key blockHeight (concat (map ?f ?hs)) = concat (map ?f ?hs)"
    by (rule sort_key_id_if_sorted)
  with unf show ?thesis by simp
qed

lemma distinct_fromTxes: "distinct (map blockHeight (fromTxes docs [] latest limit))"
  unfolding fromTxes_no_history heights_points
  by (simp add: distinct_map inj_on_def)

lemma points_fromTxes:
  assumes "p \<in> set (fromTxes docs [] latest limit)"
  shows "dp_difficulty p = 0 \<and>
         (\<exists>t. find (\<lambda>t. blockindex t = blockHeight p) docs = Some t \<and>
              dp_timestamp p = tx_timestamp t)"
  using assms unfolding fromTxes_no_history
  by (auto split: option.splits) metis

text \<open>
  C8.  When the three collections are read, \<open>getDifficultyHistory limit\<close> returns a list
  sorted ascending by height, taken from the first source that is not empty.  If there
  is a network history, the result has one point for each of its most recent \<open>limit\<close>
  documents, in ascending order of \<open>blockindex\<close>, with the document's \<open>blockindex\<close>,
  \<open>difficulty_pow\<close> and \<open>timestamp\<close>.  Otherwise, if \<open>blocks\<close> is not empty, it has one
  point for each of the most recent \<open>limit\<close> documents of \<open>blocks\<close>, in ascending order
  of \<open>height\<close>, with the document's \<open>height\<close>, \<open>difficulty\<close> and \<open>timestamp\<close>.
  Otherwise it is the reconstruction from the transaction log, which is empty for an
  empty log and else has one point for exactly those heights of the window below the
  latest height that have a transaction, with difficulty 0 and the timestamp of the
  first stored transaction of that height.  So with no network history and a block
  source of 5 entries (the most recent \<open>limit\<close> documents of \<open>blocks\<close>) the result is the
  list of their points, of length 5; for a \<open>blocks\<close> collection of 5 documents this is
  the case when \<open>limit \<ge> 5\<close>, and for any \<open>limit > 0\<close> the result has \<open>min(5, limit)\<close>
  entries.
\<close>

theorem difficulty_history_cascade:
  assumes "''networkhistories'' \<notin> set (rejected db)" "''blocks'' \<notin> set (rejected db)"
    "''txes'' \<notin> set (rejected db)"
  shows "\<exists>r. getDifficultyHistory (Inr db) limit = Inr r \<and>
           sorted (map blockHeight r) \<and>
           (col_networkhistories db \<noteq> [] \<longrightarrow>
              r = map (\<lambda>n. \<lparr>blockHeight = nh_blockindex n, dp_difficulty = difficulty_pow n,
                            dp_timestamp = nh_timestamp n\<rparr>)
                    (sort_key nh_blockindex
                      (cursor_limit limit (sortDesc nh_blockindex (col_networkhistories db))))) \<and>
           (col_networkhistories db = [] \<and> col_blocks db \<noteq> [] \<longrightarrow>
              r = map (\<lambda>b. \<lparr>blockHeight = b_height b, dp_difficulty = b_difficulty b,
                            dp_timestamp = b_timestamp b\<rparr>)
                    (sort_key b_height
                      (cursor_limit limit (sortDesc b_height (col_blocks db))))) \<and>
           (col_networkhistories db = [] \<and> col_blocks db = [] \<and> col_txes db = [] \<longrightarrow> r = []) \<and>
           (col_networkhistories db = [] \<and> col_blocks db = [] \<and> col_txes db \<noteq> [] \<longrightarrow>
              set (map blockHeight r) =
                {h. max 1 (Max (blockindex ` set (col_txes db)) - limit + 1) \<le> h \<and>
                    h < max 1 (Max (blockindex ` set (col_txes db)) - limit + 1) + limit \<and>
                    h \<le> Max (blockindex ` set (col_txes db)) \<and>
                    (\<exists>t\<in>set (col_txes db). blockindex t = h)} \<and>
              distinct (map blockHeight r) \<and>
              (\<forall>p\<in>set r. dp_difficulty p = 0 \<and>
                 (\<exists>t. find (\<lambda>t. blockindex t = blockHeight p) (col_txes db) = Some t \<and>
                      dp_timestamp p = tx_timestamp t))) \<and>
           (col_networkhistories db = [] \<and>
            length (cursor_limit limit (sortDesc b_height (col_blocks db))) = 5 \<longrightarrow>
              r = map (\<lambda>b. \<lparr>blockHeight = b_height b, dp_difficulty = b_difficulty b,
                            dp_timestamp = b_timestamp b\<rparr>)
                    (sort_key b_height
                      (cursor_limit limit (sortDesc b_height (col_blocks db)))) \<and>
              length r = 5) \<and>
           (col_networkhistories db = [] \<and> length (col_blocks db) = 5 \<and> 5 \<le> limit \<longrightarrow>
              r = map (\<lambda>b. \<lparr>blockHeight = b_height b, dp_difficulty = b_difficulty b,
                            dp_timestamp = b_timestamp b\<rparr>)
                    (sort_key b_height (sortDesc b_height (col_blocks db))) \<and>
              length r = 5) \<and>
           (col_networkhistories db = [] \<and> length (col_blocks db) = 5 \<and> 0 < limit \<longrightarrow>
              int (length r) = min 5 limit)"
proof -
  define r where "r = (if col_networkhistories db \<noteq> []
          then fromNetworkHistory (cursor_limit limit (sortDesc nh_blockindex (col_networkhistories db)))
          else if col_blocks db \<noteq> []
          then fromBlocks (cursor_limit limit (sortDesc b_height (col_blocks db)))
          else (case sortDesc blockindex (col_txes db) of
                  [] \<Rightarrow> []
                | latest # _ \<Rightarrow> fromTxes (col_txes db) [] (blockindex latest) limit))"
  let ?q = "cursor_limit limit (sortDesc b_height (col_blocks db))"
  let ?bp = "\<lambda>b. \<lparr>blockHeight = b_height b, dp_difficulty = b_difficulty b,
                   dp_timestamp = b_timestamp b\<rparr>"
  have res: "getDifficultyHistory (Inr db) limit = Inr r"
    unfolding r_def by (rule getDifficultyHistory_eq[OF assms])
  have srt: "sorted (map blockHeight r)"
    unfolding r_def
    by (simp add: sorted_fromNetworkHistory sorted_fromBlocks sorted_fromTxes split: list.splits)
  have a: "col_networkhistories db \<noteq> [] \<longrightarrow>
              r = map (\<lambda>n. \<lparr>blockHeight = nh_blockindex n, dp_difficulty = difficulty_pow n,
                            dp_timestamp = nh_timestamp n\<rparr>)
                    (sort_key nh_blockindex
                      (cursor_limit limit (sortDesc nh_blockindex (col_networkhistories db))))"
    by (simp add: r_def fromNetworkHistory_def sortAsc_def)
  have fb: "fromBlocks xs = map ?bp (sort_key b_height xs)" for xs
    by (simp add: fromBlocks_def sortAsc_def orElse_def)
  have b: "col_networkhistories db = [] \<and> col_blocks db \<noteq> [] \<longrightarrow>
             r = map ?bp (sort_key b_height ?q)"
    by (simp add: r_def fb)
  have c0: "col_networkhistories db = [] \<and> col_blocks db = [] \<and> col_txes db = [] \<longrightarrow> r = []"
    by (simp add: r_def sortDesc_Nil)
  have c1: "col_networkhistories db = [] \<and> col_blocks db = [] \<and> col_txes db \<noteq> [] \<longrightarrow>
              set (map blockHeight r) =
                {h. max 1 (Max (blockindex ` set (col_txes db)) - limit + 1) \<le> h \<and>
                    h < max 1 (Max (blockindex ` set (col_txes db)) - limit + 1) + limit \<and>
                    h \<le> Max (blockindex ` set (col_txes db)) \<and>
                    (\<exists>t\<in>set (col_txes db). blockindex t = h)} \<and>
              distinct (map blockHeight r) \<and>
              (\<forall>p\<in>set r. dp_difficulty p = 0 \<and>
                 (\<exists>t. find (\<lambda>t. blockindex t = blockHeight p) (col_txes db) = Some t \<and>
                      dp_timestamp p = tx_timestamp t))"
  proof (intro impI)
    assume h: "col_networkhistories db = [] \<and> col_blocks db = [] \<and> col_txes db \<noteq> []"
    then obtain y ys where y: "sortDesc blockindex (col_txes db) = y # ys"
      by (cases "sortDesc blockindex (col_txes db)") (auto simp: sortDesc_Nil_iff)
    from sortDesc_head_Max[OF y] have m: "blockindex y = Max (blockindex ` set (col_txes db))" .
    from h y m have eq: "r = fromTxes (col_txes db) [] (Max (blockindex ` set (col_txes db))) limit"
      by (simp add: r_def)
    have hts: "set (map blockHeight r) =
                {h. max 1 (Max (blockindex ` set (col_txes db)) - limit + 1) \<le> h \<and>
                    h < max 1 (Max (blockindex ` set (col_txes db)) - limit + 1) + limit \<and>
                    h \<le> Max (blockindex ` set (col_txes db)) \<and>
                    (\<exists>t\<in>set (col_txes db). blockindex t = h)}"
      using eq heights_fromTxes[of "col_txes db" "[]" "Max (blockindex ` set (col_txes db))" limit]
      by simp
    have dst: "distinct (map blockHeight r)"
      unfolding eq by (rule distinct_fromTxes)
    have pts: "\<forall>p\<in>set r. dp_difficulty p = 0 \<and>
                 (\<exists>t. find (\<lambda>t. blockindex t = blockHeight p) (col_txes db) = Some t \<and>
                      dp_timestamp p = tx_timestamp t)"
      unfolding eq using points_fromTxes by blast
    from hts dst pts
    show "set (map blockHeight r) =
                {h. max 1 (Max (blockindex ` set (col_txes db)) - limit + 1) \<le> h \<and>
                    h < max 1 (Max (blockindex ` set (col_txes db)) - limit + 1) + limit \<and>
                    h \<le> Max (blockindex ` set (col_txes db)) \<and>
                    (\<exists>t\<in>set (col_txes db). blockindex t = h)} \<and>
              distinct (map blockHeight r) \<and>
              (\<forall>p\<in>set r. dp_difficulty p = 0 \<and>
                 (\<exists>t. find (\<lambda>t. blockindex t = blockHeight p) (col_txes db) = Some t \<and>
                      dp_timestamp p = tx_timestamp t))"
      by (intro conjI)
  qed
  have e1: "col_networkhistories db = [] \<and> length ?q = 5 \<longrightarrow>
              r = map ?bp (sort_key b_height ?q) \<and> length r = 5"
  proof (intro impI)
    assume h: "col_networkhistories db = [] \<and> length ?q = 5"
    then have "?q \<noteq> []" by auto
    then have "col_blocks db \<noteq> []" by (simp add: cursor_limit_Nil_iff sortDesc_Nil_iff)
    with h b have "r = map ?bp (sort_key b_height ?q)" by simp
    with h show "r = map ?bp (sort_key b_height ?q) \<and> length r = 5" by simp
  qed
  have l5: "length (col_blocks db) = 5 \<Longrightarrow> length (sortDesc b_height (col_blocks db)) = 5"
    by (simp add: sortDesc_def)
  have e2: "col_networkhistories db = [] \<and> length (col_blocks db) = 5 \<and> 5 \<le> limit \<longrightarrow>
              r = map ?bp (sort_key b_height (sortDesc b_height (col_blocks db))) \<and> length r = 5"
  proof (intro impI)
    assume h: "col_networkhistories db = [] \<and> length (col_blocks db) = 5 \<and> 5 \<le> limit"
    then have all: "?q = sortDesc b_height (col_blocks db)"
      using l5 by (intro cursor_limit_all) simp
    with h l5 e1
    show "r = map ?bp (sort_key b_height (sortDesc b_height (col_blocks db))) \<and> length r = 5"
      by simp
  qed
  have e3: "col_networkhistories db = [] \<and> length (col_blocks db) = 5 \<and> 0 < limit \<longrightarrow>
              int (length r) = min 5 limit"
  proof (intro impI)
    assume h: "col_networkhistories db = [] \<and> length (col_blocks db) = 5 \<and> 0 < limit"
    then have "col_blocks db \<noteq> []" by auto
    with h b have "r = map ?bp (sort_key b_height ?q)" by simp
    then have "length r = length ?q" by simp
    with h l5 length_cursor_limit_pos[of limit "sortDesc b_height (col_blocks db)"]
    show "int (length r) = min 5 limit" by simp
  qed
  show ?thesis
    by (rule exI[of _ r], intro conjI) (rule res srt a b c0 c1 e1 e2 e3)+
qed

text \<open>
  The example store has five blocks and no network history: the default limit 50 gives
  the five points in ascending order, each with the difficulty and the timestamp of its
  block, and the limit 3 gives the points of the three highest blocks.  The first
  example store has a network history, which is used; without it the heights 2 and 3
  come from the transaction log under the limit 2, with difficulty 0 and the timestamps
  of the transactions \<open>p2\<close> and \<open>c3\<close>; without the log as well the history is empty.
\<close>

theorem difficulty_history_cascade_witness:
  "col_networkhistories example_blocks_db = [] \<and> length (col_blocks example_blocks_db) = 5
   \<and> getDifficultyHistory (Inr example_blocks_db) 50 =
       Inr [\<lparr>blockHeight = 1, dp_difficulty = 1, dp_timestamp = 100\<rparr>,
            \<lparr>blockHeight = 2, dp_difficulty = 2, dp_timestamp = 200\<rparr>,
            \<lparr>blockHeight = 3, dp_difficulty = 0, dp_timestamp = 300\<rparr>,
            \<lparr>blockHeight = 4, dp_difficulty = 4, dp_timestamp = 400\<rparr>,
            \<lparr>blockHeight = 5, dp_difficulty = 5, dp_timestamp = 500\<rparr>]
   \<and> getDifficultyHistory (Inr example_blocks_db) 3 =
       Inr [\<lparr>blockHeight = 3, dp_difficulty = 0, dp_timestamp = 300\<rparr>,
            \<lparr>blockHeight = 4, dp_difficulty = 4, dp_timestamp = 400\<rparr>,
            \<lparr>blockHeight = 5, dp_difficulty = 5, dp_timestamp = 500\<rparr>]
   \<and> getDifficultyHistory (Inr example_db) 50 =
       Inr [\<lparr>blockHeight = 1, dp_difficulty = 3 / 2, dp_timestamp = 100\<rparr>,
            \<lparr>blockHeight = 3, dp_difficulty = 2, dp_timestamp = 300\<rparr>]
   \<and> (\<exists>r. getDifficultyHistory (Inr (example_db\<lparr>col_networkhistories := []\<rparr>)) 2 = Inr r \<and>
          r = [\<lparr>blockHeight = 2, dp_difficulty = 0, dp_timestamp = 200\<rparr>,
               \<lparr>blockHeight = 3, dp_difficulty = 0, dp_timestamp = 300\<rparr>] \<and>
          set (map blockHeight r) = {2, 3} \<and> distinct (map blockHeight r) \<and>
          find (\<lambda>t. blockindex t = 2) (col_txes example_db) = Some (example_txes ! 0) \<and>
          find (\<lambda>t. blockindex t = 3) (col_txes example_db) = Some (example_txes ! 3))
   \<and> getDifficultyHistory (Inr (example_db\<lparr>col_networkhistories := [], col_txes := []\<rparr>)) 50
       = Inr []"
proof -
  let ?dbt = "example_db\<lparr>col_networkhistories := []\<rparr>"
  let ?dbe = "example_db\<lparr>col_networkhistories := [], col_txes := []\<rparr>"
  let ?bp = "\<lambda>b. \<lparr>blockHeight = b_height b, dp_difficulty = b_difficulty b,
                   dp_timestamp = b_timestamp b\<rparr>"
  let ?five = "[\<lparr>blockHeight = 1, dp_difficulty = 1, dp_timestamp = 100\<rparr>,
            \<lparr>blockHeight = 2, dp_difficulty = 2, dp_timestamp = 200\<rparr>,
            \<lparr>blockHeight = 3, dp_difficulty = 0, dp_timestamp = 300\<rparr>,
            \<lparr>blockHeight = 4, dp_difficulty = 4, dp_timestamp = 400\<rparr>,
            \<lparr>blockHeight = 5, dp_difficulty = 5, dp_timestamp = 500\<rparr>]"
  let ?three = "[\<lparr>blockHeight = 3, dp_difficulty = 0, dp_timestamp = 300\<rparr>,
            \<lparr>blockHeight = 4, dp_difficulty = 4, dp_timestamp = 400\<rparr>,
            \<lparr>blockHeight = 5, dp_difficulty = 5, dp_timestamp = 500\<rparr>]"
  let ?two = "[\<lparr>blockHeight = 2, dp_difficulty = 0, dp_timestamp = 200\<rparr>,
               \<lparr>blockHeight = 3, dp_difficulty = 0, dp_timestamp = 300\<rparr>]"
  have ok: "''networkhistories'' \<notin> set (rejected example_blocks_db)"
    "''blocks'' \<notin> set (rejected example_blocks_db)"
    "''txes'' \<notin> set (rejected example_blocks_db)"
    by (simp_all add: example_blocks_db_def example_db_def)
  have ok1: "''networkhistories'' \<notin> set (rejected example_db)"
    "''blocks'' \<notin> set (rejected example_db)"
    "''txes'' \<notin> set (rejected example_db)"
    by (simp_all add: example_db_def)
  have ok2: "''networkhistories'' \<notin> set (rejected ?dbt)"
    "''blocks'' \<notin> set (rejected ?dbt)"
    "''txes'' \<notin> set (rejected ?dbt)"
    by (simp_all add: example_db_def)
  have ok3: "''networkhistories'' \<notin> set (rejected ?dbe)"
    "''blocks'' \<notin> set (rejected ?dbe)"
    "''txes'' \<notin> set (rejected ?dbe)"
    by (simp_all add: example_db_def)
  have src: "col_networkhistories example_blocks_db = []"
    "length (col_blocks example_blocks_db) = 5"
    "col_blocks example_blocks_db \<noteq> []"
    by (simp_all add: example_blocks_db_def example_blocks_def)
  have v5: "map ?bp (sort_key b_height (sortDesc b_height (col_blocks example_blocks_db))) = ?five"
    by code_simp
  from difficulty_history_cascade[OF ok, of 50]
  obtain r where r: "getDifficultyHistory (Inr example_blocks_db) 50 = Inr r"
    and r5: "col_networkhistories example_blocks_db = [] \<and>
             length (col_blocks example_blocks_db) = 5 \<and> 5 \<le> (50::int) \<longrightarrow>
               r = map ?bp (sort_key b_height (sortDesc b_height (col_blocks example_blocks_db)))
               \<and> length r = 5"
    by blast
  from r5 src have "r = map ?bp (sort_key b_height (sortDesc b_height (col_blocks example_blocks_db)))"
    by simp
  with r v5 have w1: "getDifficultyHistory (Inr example_blocks_db) 50 = Inr ?five"
    by simp
  have v3: "map ?bp (sort_key b_height
              (cursor_limit 3 (sortDesc b_height (col_blocks example_blocks_db)))) = ?three"
    by code_simp
  from difficulty_history_cascade[OF ok, of 3]
  obtain r3 where r3: "getDifficultyHistory (Inr example_blocks_db) 3 = Inr r3"
    and r3b: "col_networkhistories example_blocks_db = [] \<and> col_blocks example_blocks_db \<noteq> [] \<longrightarrow>
                r3 = map ?bp (sort_key b_height
                       (cursor_limit 3 (sortDesc b_height (col_blocks example_blocks_db))))"
    and r3l: "col_networkhistories example_blocks_db = [] \<and>
              length (col_blocks example_blocks_db) = 5 \<and> 0 < (3::int) \<longrightarrow>
                int (length r3) = min 5 3"
    by blast
  from r3b src have "r3 = map ?bp (sort_key b_height
                       (cursor_limit 3 (sortDesc b_height (col_blocks example_blocks_db))))"
    by simp
  with r3 v3 have w2: "getDifficultyHistory (Inr example_blocks_db) 3 = Inr ?three"
    by simp
  have nh: "col_networkhistories example_db \<noteq> []" by (simp add: example_db_def)
  have nhs: "map (\<lambda>n. \<lparr>blockHeight = nh_blockindex n, dp_difficulty = difficulty_pow n,
                        dp_timestamp = nh_timestamp n\<rparr>)
               (sort_key nh_blockindex
                 (cursor_limit 50 (sortDesc nh_blockindex (col_networkhistories example_db))))
             = [\<lparr>blockHeight = 1, dp_difficulty = 3 / 2, dp_timestamp = 100\<rparr>,
                \<lparr>blockHeight = 3, dp_difficulty = 2, dp_timestamp = 300\<rparr>]"
    by code_simp
  from difficulty_history_cascade[OF ok1, of 50]
  obtain rn where rn: "getDifficultyHistory (Inr example_db) 50 = Inr rn"
    and rna: "col_networkhistories example_db \<noteq> [] \<longrightarrow>
      rn = map (\<lambda>n. \<lparr>blockHeight = nh_blockindex n, dp_difficulty = difficulty_pow n,
                     dp_timestamp = nh_timestamp n\<rparr>)
            (sort_key nh_blockindex
              (cursor_limit 50 (sortDesc nh_blockindex (col_networkhistories example_db))))"
    by blast
  from rna nh have "rn = map (\<lambda>n. \<lparr>blockHeight = nh_blockindex n, dp_difficulty = difficulty_pow n,
                     dp_timestamp = nh_timestamp n\<rparr>)
            (sort_key nh_blockindex
              (cursor_limit 50 (sortDesc nh_blockindex (col_networkhistories example_db))))"
    by blast
  with rn nhs have w3: "getDifficultyHistory (Inr example_db) 50 =
       Inr [\<lparr>blockHeight = 1, dp_difficulty = 3 / 2, dp_timestamp = 100\<rparr>,
            \<lparr>blockHeight = 3, dp_difficulty = 2, dp_timestamp = 300\<rparr>]"
    by simp
  have tsrc: "col_networkhistories ?dbt = []" "col_blocks ?dbt = []" "col_txes ?dbt \<noteq> []"
    by (simp_all add: example_db_def example_txes_def)
  have run: "getDifficultyHistory (Inr ?dbt) 2 = Inr ?two"
    by code_simp
  have fnd: "find (\<lambda>t. blockindex t = 2) (col_txes example_db) = Some (example_txes ! 0)"
    "find (\<lambda>t. blockindex t = 3) (col_txes example_db) = Some (example_txes ! 3)"
    by code_simp+
  from difficulty_history_cascade[OF ok2, of 2]
  obtain rt where rt: "getDifficultyHistory (Inr ?dbt) 2 = Inr rt"
    and rtc: "col_networkhistories ?dbt = [] \<and> col_blocks ?dbt = [] \<and> col_txes ?dbt \<noteq> [] \<longrightarrow>
              set (map blockHeight rt) =
                {h. max 1 (Max (blockindex ` set (col_txes ?dbt)) - 2 + 1) \<le> h \<and>
                    h < max 1 (Max (blockindex ` set (col_txes ?dbt)) - 2 + 1) + 2 \<and>
                    h \<le> Max (blockindex ` set (col_txes ?dbt)) \<and>
                    (\<exists>t\<in>set (col_txes ?dbt). blockindex t = h)} \<and>
              distinct (map blockHeight rt) \<and>
              (\<forall>p\<in>set rt. dp_difficulty p = 0 \<and>
                 (\<exists>t. find (\<lambda>t. blockindex t = blockHeight p) (col_txes ?dbt) = Some t \<and>
                      dp_timestamp p = tx_timestamp t))"
    by blast
  from rtc tsrc have dst: "distinct (map blockHeight rt)"
    by blast
  from rt run have rt2: "rt = ?two" by simp
  then have hts: "set (map blockHeight rt) = {2, 3}" by auto
  from rt rt2 hts dst fnd
  have w4: "\<exists>r. getDifficultyHistory (Inr ?dbt) 2 = Inr r \<and> r = ?two \<and>
          set (map blockHeight r) = {2, 3} \<and> distinct (map blockHeight r) \<and>
          find (\<lambda>t. blockindex t = 2) (col_txes example_db) = Some (example_txes ! 0) \<and>
          find (\<lambda>t. blockindex t = 3) (col_txes example_db) = Some (example_txes ! 3)"
    by blast
  have esrc: "col_networkhistories ?dbe = []" "col_blocks ?dbe = []" "col_txes ?dbe = []"
    by (simp_all add: example_db_def)
  from difficulty_history_cascade[OF ok3, of 50]
  obtain re where re: "getDifficultyHistory (Inr ?dbe) 50 = Inr re"
    and ree: "col_networkhistories ?dbe = [] \<and> col_blocks ?dbe = [] \<and> col_txes ?dbe = [] \<longrightarrow>
                re = []"
    by blast
  from ree esrc have "re = []" by blast
  with re have w5: "getDifficultyHistory (Inr ?dbe) 50 = Inr []"
    by simp
  from src(1,2) w1 w2 w3 w4 w5 show ?thesis by blast
qed

section \<open>Outputs, totals and values of pending transactions\<close>

lemma mempoolOutputs_eq:
  "mempoolOutputs outs (v, t) =
     (v @ map pushedOutput (filter addressBearing outs),
      t + sum_list (map smallestUnits (filter addressBearing outs)))"
proof (induction outs arbitrary: v t)
  case Nil
  then show ?case by simp
next
  case (Cons out outs)
  show ?case
  proof (cases "outputAddresses out")
    case Nil
    then have "\<not> addressBearing out" by (simp add: addressBearing_def)
    with Nil Cons.IH show ?thesis
      by (simp add: outputAddresses_def Let_def)
  next
    case (Cons a as)
    then have ab: "addressBearing out" by (simp add: addressBearing_def)
    have amt: "Math_round (orElse (out_value out) 0 * 100000000) = smallestUnits out"
      by (simp add: smallestUnits_def orElse_def)
    from Cons have push: "\<lparr>addresses = a, amount = smallestUnits out\<rparr> = pushedOutput out"
      by (simp add: pushedOutput_def)
    from Cons ab amt show ?thesis
      using Cons.IH[of "v @ [\<lparr>addresses = a, amount = smallestUnits out\<rparr>]" "t + smallestUnits out"]
      by (simp add: outputAddresses_def[symmetric] Let_def push)
  qed
qed


lemma detailOutputs_eq:
  "list_all (\<lambda>out. scriptPubKey out \<noteq> None) outs \<Longrightarrow>
   detailOutputs outs (v, t) =
     Inr (v @ map pushedOutput (filter addressBearing outs),
          t + sum_list (map smallestUnits (filter addressBearing outs)))"
proof (induction outs arbitrary: v t)
  case Nil
  then show ?case by simp
next
  case (Cons out outs)
  from Cons.prems obtain spk where spk: "scriptPubKey out = Some spk" by auto
  from Cons.prems have rest: "list_all (\<lambda>out. scriptPubKey out \<noteq> None) outs" by simp
  note ih = Cons.IH[OF rest]
  show ?case
  proof (cases "outputAddresses out")
    case Nil
    then have "\<not> addressBearing out" by (simp add: addressBearing_def)
    with Nil spk ih show ?thesis
      by (simp add: outputAddresses_def Let_def)
  next
    case (Cons a as)
    then have ab: "addressBearing out" by (simp add: addressBearing_def)
    from Cons have push: "\<lparr>addresses = a, amount = smallestUnits out\<rparr> = pushedOutput out"
      by (simp add: pushedOutput_def)
    from Cons spk have "(case spk_addresses spk of None \<Rightarrow> [] | Some a \<Rightarrow> a) = a # as"
      by (simp add: outputAddresses_def)
    with ab spk show ?thesis
      using ih[of "v @ [\<lparr>addresses = a, amount = smallestUnits out\<rparr>]" "t + smallestUnits out"]
      by (simp add: Let_def push smallestUnits_def[symmetric])
  qed
qed

lemma sum_pushed:
  "sum_list (map (amount \<circ> pushedOutput) outs) = sum_list (map smallestUnits outs)"
  by (induction outs) (simp_all add: pushedOutput_def)

lemma enrichTransaction_outputs:
  "e_txid (enrichTransaction node tx) = mp_txid tx \<and>
   e_vout (enrichTransaction node tx) =
     map pushedOutput (filter addressBearing (rawOutputs node (mp_txid tx))) \<and>
   e_total (enrichTransaction node tx) =
     sum_list (map smallestUnits (filter addressBearing (rawOutputs node (mp_txid tx)))) \<and>
   e_value (enrichTransaction node tx) = rat_of_int (e_total (enrichTransaction node tx)) / 180000000"
  by (simp add: enrichTransaction_def rawOutputs_def mempoolOutputs_eq Let_def
      split: option.splits)

lemma getMempoolTransactions_member:
  assumes "getMempoolTransactions conn node now = Inr view" "e \<in> set (mv_transactions view)"
  shows "\<exists>tx. e = requiredFields now (enrichTransaction node tx)"
proof -
  from assms(1) obtain db where conn: "conn = Inr db"
    by (cases conn) (simp_all add: getMempoolTransactions_def andThen_def)
  show ?thesis
  proof (cases "''mempool'' \<in> set (rejected db) \<or> ''mempoolstats'' \<in> set (rejected db)")
    case True
    with assms conn have "mv_transactions view = []"
      by (auto simp: getMempoolTransactions_def andThen_def tryCatch_def collection_def)
    with assms(2) show ?thesis by simp
  next
    case False
    with assms(1) conn obtain txs where "mv_transactions view = map (requiredFields now) (map (enrichTransaction node) txs)"
      by (auto simp: getMempoolTransactions_def andThen_def tryCatch_def collection_def Let_def)
    with assms(2) show ?thesis by auto
  qed
qed

lemma requiredFields_keeps:
  "e_txid (requiredFields now e) = e_txid e \<and> e_vout (requiredFields now e) = e_vout e \<and>
   e_vin (requiredFields now e) = e_vin e \<and>
   e_total (requiredFields now e) = e_total e \<and> e_value (requiredFields now e) = e_value e"
  by (simp add: requiredFields_def)

lemma getTransactionById_pending:
  assumes "getTransactionById conn node t = Inr (Some (Pending p))"
    and "list_all (\<lambda>out. scriptPubKey out \<noteq> None) (rawOutputs node t)"
  shows "p_vout p = map pushedOutput (filter addressBearing (rawOutputs node t)) \<and>
         p_total p = sum_list (map smallestUnits (filter addressBearing (rawOutputs node t)))"
proof -
  from assms(1) obtain db where conn: "conn = Inr db"
    by (cases conn) (simp_all add: getTransactionById_def andThen_def)
  from assms(1) conn obtain docs where docs: "collection db ''txes'' col_txes = Inr docs"
    by (cases "collection db ''txes'' col_txes") (simp_all add: getTransactionById_def andThen_def)
  from assms(1) conn docs have nf: "findOne (filter (\<lambda>d. txid d = t) docs) = None"
    by (cases "findOne (filter (\<lambda>d. txid d = t) docs)") (simp_all add: getTransactionById_def andThen_def)
  from assms(1) conn docs nf obtain mdocs where mdocs: "collection db ''mempool'' col_mempool = Inr mdocs"
    by (cases "collection db ''mempool'' col_mempool") (simp_all add: getTransactionById_def andThen_def)
  from assms(1) conn docs nf mdocs obtain mempoolTx where
    m: "findOne (filter (\<lambda>m. mp_txid m = t) mdocs) = Some mempoolTx"
    by (cases "findOne (filter (\<lambda>m. mp_txid m = t) mdocs)") (simp_all add: getTransactionById_def andThen_def)
  show ?thesis
  proof (cases "getRawTransaction node t")
    case None
    with assms(1) conn docs nf mdocs m show ?thesis
      by (auto simp: getTransactionById_def andThen_def tryCatch_def rawOutputs_def)
  next
    case (Some rawTx)
    show ?thesis
    proof (cases "raw_vout rawTx")
      case None
      with Some assms(1) conn docs nf mdocs m show ?thesis
        by (auto simp: getTransactionById_def andThen_def tryCatch_def rawOutputs_def Let_def)
    next
      case (Some outs)
      with \<open>getRawTransaction node t = Some rawTx\<close> assms(2)
      have ok: "list_all (\<lambda>out. scriptPubKey out \<noteq> None) outs"
        and ro: "rawOutputs node t = outs"
        by (simp_all add: rawOutputs_def)
      from Some \<open>getRawTransaction node t = Some rawTx\<close> assms(1) conn docs nf mdocs m ro
      show ?thesis
        by (auto simp: getTransactionById_def andThen_def tryCatch_def Let_def
            detailOutputs_eq[OF ok])
    qed
  qed
qed

lemma detailOutputs_skip:
  "scriptPubKey out \<noteq> None \<Longrightarrow> \<not> addressBearing out \<Longrightarrow>
     detailOutputs (outs @ out # outs') acc = detailOutputs (outs @ outs') acc"
proof (induction outs arbitrary: acc)
  case Nil
  then show ?case
    by (cases acc) (auto simp: addressBearing_def outputAddresses_def Let_def split: option.splits)
next
  case (Cons o' outs)
  then show ?case
    by (cases acc) (simp add: Let_def split: option.splits list.splits)
qed

text \<open>
  C6, as stated, fails: when a raw transaction has an output with a value and no
  address, the total is not the sum of the scaled amounts of its outputs.  Here the
  outputs are worth 5 coins (to \<open>X\<close>) and 1 coin (no address): the total is 500000000,
  the scaled amounts sum to 600000000.
\<close>

theorem total_omits_addressless_output:
  "getMempoolTransactions (Inr example_db) example_node_bare 5000 =
     Inr \<lparr>mv_transactions =
            [\<lparr>e_txid = ''m1'', e_size = 200, e_time = 1000, e_fee = 0,
              e_vin = [\<lparr>addresses = ''coinbase'', amount = 0\<rparr>],
              e_vout = [\<lparr>addresses = ''X'', amount = 500000000\<rparr>],
              e_total = 500000000, e_value = 25 / 9\<rparr>],
          mv_stats = \<lparr>st_size = 0, st_bytes = 0, st_usage = 0\<rparr>\<rparr>
   \<and> rawOutputs example_node_bare ''m1'' = [example_output, example_bare_output]
   \<and> sum_list (map smallestUnits (rawOutputs example_node_bare ''m1'')) = 600000000"
  by code_simp

text \<open>
  The \<open>value\<close> of a returned transaction is its \<open>total\<close> divided by 180000000, under
  the comment \<open>Total in ADVC\<close>, although the amounts are scaled by 100000000: the value
  is not the total in coins, and a total of 5 coins has the value \<open>25/9\<close>.
\<close>

lemma mempool_value_divisor:
  "(getMempoolTransactions conn node now = Inr view \<and> e \<in> set (mv_transactions view) \<longrightarrow>
      e_value e = rat_of_int (e_total e) / 180000000)
   \<and> rat_of_int 500000000 / 180000000 = 25 / 9
   \<and> rat_of_int 500000000 / 100000000 = 5"
proof -
  have "getMempoolTransactions conn node now = Inr view \<and> e \<in> set (mv_transactions view) \<longrightarrow>
      e_value e = rat_of_int (e_total e) / 180000000"
  proof
    assume h: "getMempoolTransactions conn node now = Inr view \<and> e \<in> set (mv_transactions view)"
    then obtain tx0 where e: "e = requiredFields now (enrichTransaction node tx0)"
      using getMempoolTransactions_member by blast
    show "e_value e = rat_of_int (e_total e) / 180000000"
      unfolding e using enrichTransaction_outputs[of node tx0]
      by (simp add: requiredFields_keeps)
  qed
  then show ?thesis by simp
qed

text \<open>
  C6, amended.  The enrichment of a mempool entry depends on the raw transaction only:
  two enrichments that get the same raw transaction yield the same \<open>vin\<close>, \<open>vout\<close>,
  \<open>total\<close> and \<open>value\<close>.  For every transaction returned by \<open>getMempoolTransactions\<close>,
  \<open>total\<close> is the sum, over the outputs of its raw transaction that carry an address, of
  the output value times 100000000 (rounded).  A raw transaction with a coinbase input
  and one output of 5 coins to an address yields that one output with amount 500000000
  and \<open>total = 500000000\<close>.
\<close>

theorem mempool_total_and_value:
  "(getRawTransaction node (mp_txid tx) = getRawTransaction node' (mp_txid tx') \<longrightarrow>
      e_total (enrichTransaction node tx) = e_total (enrichTransaction node' tx') \<and>
      e_value (enrichTransaction node tx) = e_value (enrichTransaction node' tx') \<and>
      e_vin (enrichTransaction node tx) = e_vin (enrichTransaction node' tx') \<and>
      e_vout (enrichTransaction node tx) = e_vout (enrichTransaction node' tx'))
   \<and> (getMempoolTransactions conn node now = Inr view \<and> e \<in> set (mv_transactions view) \<longrightarrow>
        e_total e =
          sum_list (map smallestUnits (filter addressBearing (rawOutputs node (e_txid e)))))
   \<and> (getRawTransaction node (mp_txid tx) =
          Some \<lparr>raw_txid = i,
                raw_vin = Some [\<lparr>coinbase = Some cb, in_txid = None, in_vout = k\<rparr>],
                raw_vout = Some [\<lparr>out_value = 5,
                                  scriptPubKey = Some \<lparr>spk_addresses = Some [a]\<rparr>\<rparr>]\<rparr>
        \<and> cb \<noteq> [] \<longrightarrow>
        e_vin (enrichTransaction node tx) = [\<lparr>addresses = ''coinbase'', amount = 0\<rparr>] \<and>
        e_vout (enrichTransaction node tx) = [\<lparr>addresses = a, amount = 500000000\<rparr>] \<and>
        e_total (enrichTransaction node tx) = 500000000)"
proof -
  have same: "getRawTransaction node (mp_txid tx) = getRawTransaction node' (mp_txid tx') \<longrightarrow>
      e_total (enrichTransaction node tx) = e_total (enrichTransaction node' tx') \<and>
      e_value (enrichTransaction node tx) = e_value (enrichTransaction node' tx') \<and>
      e_vin (enrichTransaction node tx) = e_vin (enrichTransaction node' tx') \<and>
      e_vout (enrichTransaction node tx) = e_vout (enrichTransaction node' tx')"
    by (simp add: enrichTransaction_def Let_def split: option.splits)
  have listed: "getMempoolTransactions conn node now = Inr view \<and> e \<in> set (mv_transactions view) \<longrightarrow>
        e_total e =
          sum_list (map smallestUnits (filter addressBearing (rawOutputs node (e_txid e))))"
  proof
    assume h: "getMempoolTransactions conn node now = Inr view \<and> e \<in> set (mv_transactions view)"
    then obtain tx0 where e: "e = requiredFields now (enrichTransaction node tx0)"
      using getMempoolTransactions_member by blast
    show "e_total e =
          sum_list (map smallestUnits (filter addressBearing (rawOutputs node (e_txid e))))"
      unfolding e using enrichTransaction_outputs[of node tx0]
      by (simp add: requiredFields_keeps)
  qed
  have five: "Math_round 500000000 = 500000000"
    by code_simp
  have example: "getRawTransaction node (mp_txid tx) =
          Some \<lparr>raw_txid = i,
                raw_vin = Some [\<lparr>coinbase = Some cb, in_txid = None, in_vout = k\<rparr>],
                raw_vout = Some [\<lparr>out_value = 5,
                                  scriptPubKey = Some \<lparr>spk_addresses = Some [a]\<rparr>\<rparr>]\<rparr>
        \<and> cb \<noteq> [] \<longrightarrow>
        e_vin (enrichTransaction node tx) = [\<lparr>addresses = ''coinbase'', amount = 0\<rparr>] \<and>
        e_vout (enrichTransaction node tx) = [\<lparr>addresses = a, amount = 500000000\<rparr>] \<and>
        e_total (enrichTransaction node tx) = 500000000"
    by (simp add: enrichTransaction_def Let_def truthy_def orElse_def five)
  from same listed example show ?thesis by blast
qed

text \<open>
  The example mempool: the entry \<open>m1\<close> is returned with total 500000000, the scaled
  amount of its only output.  Its raw transaction has a coinbase input and one output
  of 5 coins; two mempool entries for it, differing in size, time and fee, are enriched
  to the same total and value.
\<close>

theorem mempool_total_and_value_witness:
  "(\<exists>view e. getMempoolTransactions (Inr example_db) example_node 5000 = Inr view \<and>
        e \<in> set (mv_transactions view) \<and> e_txid e = ''m1'' \<and>
        rawOutputs example_node ''m1'' = [example_output] \<and>
        e_total e = 500000000)
   \<and> e_total (enrichTransaction example_node
         \<lparr>mp_txid = ''m1'', mp_size = 200, mp_time = 1000, mp_fee = 0\<rparr>) = 500000000
   \<and> e_total (enrichTransaction example_node
         \<lparr>mp_txid = ''m1'', mp_size = 200, mp_time = 1000, mp_fee = 0\<rparr>)
       = e_total (enrichTransaction example_node
           \<lparr>mp_txid = ''m1'', mp_size = 999, mp_time = 5, mp_fee = 1\<rparr>)
   \<and> e_value (enrichTransaction example_node
         \<lparr>mp_txid = ''m1'', mp_size = 200, mp_time = 1000, mp_fee = 0\<rparr>)
       = e_value (enrichTransaction example_node
           \<lparr>mp_txid = ''m1'', mp_size = 999, mp_time = 5, mp_fee = 1\<rparr>)"
proof -
  let ?tx = "\<lparr>mp_txid = ''m1'', mp_size = 200, mp_time = 1000, mp_fee = 0\<rparr>"
  let ?tx' = "\<lparr>mp_txid = ''m1'', mp_size = 999, mp_time = 5, mp_fee = 1\<rparr>"
  have rawtx: "getRawTransaction example_node (mp_txid ?tx) =
          Some \<lparr>raw_txid = ''m1'',
                raw_vin = Some [\<lparr>coinbase = Some ''04ffff'', in_txid = None, in_vout = 0\<rparr>],
                raw_vout = Some [\<lparr>out_value = 5,
                                  scriptPubKey = Some \<lparr>spk_addresses = Some [''X'']\<rparr>\<rparr>]\<rparr>"
    by code_simp
  have same: "getRawTransaction example_node (mp_txid ?tx) = getRawTransaction example_node (mp_txid ?tx')"
    by simp
  have cb: "''04ffff'' \<noteq> []" by simp
  define e where "e =
     \<lparr>e_txid = ''m1'', e_size = 200, e_time = 1000, e_fee = 0,
      e_vin = [\<lparr>addresses = ''coinbase'', amount = 0\<rparr>],
      e_vout = [\<lparr>addresses = ''X'', amount = 500000000\<rparr>],
      e_total = 500000000, e_value = 25 / 9\<rparr>"
  define view where "view =
     \<lparr>mv_transactions = [e], mv_stats = \<lparr>st_size = 0, st_bytes = 0, st_usage = 0\<rparr>\<rparr>"
  have run: "getMempoolTransactions (Inr example_db) example_node 5000 = Inr view"
    unfolding view_def e_def by code_simp
  have mem: "e \<in> set (mv_transactions view)" by (simp add: view_def)
  have raw: "rawOutputs example_node ''m1'' = [example_output]" by code_simp
  have units: "sum_list (map smallestUnits (filter addressBearing [example_output])) = 500000000"
    by code_simp
  have id: "e_txid e = ''m1''" by (simp add: e_def)
  note th = mempool_total_and_value[of example_node ?tx example_node ?tx' "Inr example_db" 5000
      view e "''m1''" "''04ffff''" 0 "''X''"]
  from th rawtx cb have five: "e_total (enrichTransaction example_node ?tx) = 500000000"
    by blast
  from th same have det: "e_total (enrichTransaction example_node ?tx)
       = e_total (enrichTransaction example_node ?tx')"
    "e_value (enrichTransaction example_node ?tx) = e_value (enrichTransaction example_node ?tx')"
    by blast+
  from th run mem
  have "e_total e =
          sum_list (map smallestUnits (filter addressBearing (rawOutputs example_node (e_txid e))))"
    by blast
  then have "e_total e = 500000000"
    unfolding id raw units by simp
  with run mem id raw
  have "getMempoolTransactions (Inr example_db) example_node 5000 = Inr view \<and>
        e \<in> set (mv_transactions view) \<and> e_txid e = ''m1'' \<and>
        rawOutputs example_node ''m1'' = [example_output] \<and>
        e_total e = 500000000"
    by simp
  then have "\<exists>view e. getMempoolTransactions (Inr example_db) example_node 5000 = Inr view \<and>
        e \<in> set (mv_transactions view) \<and> e_txid e = ''m1'' \<and>
        rawOutputs example_node ''m1'' = [example_output] \<and>
        e_total e = 500000000"
    by blast
  with five det show ?thesis by blast
qed

text \<open>
  C10.  In \<open>getMempoolTransactions\<close>, for every returned transaction, and in
  \<open>getTransactionById\<close>, for every pending transaction returned whose raw outputs all
  have a \<open>scriptPubKey\<close>, the \<open>vout\<close> list has exactly one entry for each raw output
  that carries an address, in order, and \<open>total\<close> is the sum of the amounts of these
  outputs, which is the sum of the amounts in \<open>vout\<close>.  An output whose \<open>scriptPubKey\<close>
  carries no address changes nothing in either loop: with it or without it the loop ends
  in the same \<open>vout\<close> and the same total.
\<close>

theorem outputs_without_address_excluded:
  "(getMempoolTransactions conn node now = Inr view \<and> e \<in> set (mv_transactions view) \<longrightarrow>
      e_vout e = map pushedOutput (filter addressBearing (rawOutputs node (e_txid e))) \<and>
      e_total e =
        sum_list (map smallestUnits (filter addressBearing (rawOutputs node (e_txid e)))) \<and>
      e_total e = sum_list (map amount (e_vout e)))
   \<and> (getTransactionById conn node t = Inr (Some (Pending p)) \<and>
      list_all (\<lambda>out. scriptPubKey out \<noteq> None) (rawOutputs node t) \<longrightarrow>
      p_vout p = map pushedOutput (filter addressBearing (rawOutputs node t)) \<and>
      p_total p = sum_list (map smallestUnits (filter addressBearing (rawOutputs node t))) \<and>
      p_total p = sum_list (map amount (p_vout p)))
   \<and> (\<not> addressBearing out \<longrightarrow>
        mempoolOutputs (outs @ out # outs') acc = mempoolOutputs (outs @ outs') acc)
   \<and> (scriptPubKey out \<noteq> None \<and> \<not> addressBearing out \<longrightarrow>
        detailOutputs (outs @ out # outs') acc = detailOutputs (outs @ outs') acc)"
proof -
  have listed: "getMempoolTransactions conn node now = Inr view \<and> e \<in> set (mv_transactions view) \<longrightarrow>
      e_vout e = map pushedOutput (filter addressBearing (rawOutputs node (e_txid e))) \<and>
      e_total e =
        sum_list (map smallestUnits (filter addressBearing (rawOutputs node (e_txid e)))) \<and>
      e_total e = sum_list (map amount (e_vout e))"
  proof
    assume h: "getMempoolTransactions conn node now = Inr view \<and> e \<in> set (mv_transactions view)"
    then obtain tx0 where e: "e = requiredFields now (enrichTransaction node tx0)"
      using getMempoolTransactions_member by blast
    show "e_vout e = map pushedOutput (filter addressBearing (rawOutputs node (e_txid e))) \<and>
      e_total e =
        sum_list (map smallestUnits (filter addressBearing (rawOutputs node (e_txid e)))) \<and>
      e_total e = sum_list (map amount (e_vout e))"
      unfolding e using enrichTransaction_outputs[of node tx0]
      by (simp add: requiredFields_keeps sum_pushed)
  qed
  have detail: "getTransactionById conn node t = Inr (Some (Pending p)) \<and>
      list_all (\<lambda>out. scriptPubKey out \<noteq> None) (rawOutputs node t) \<longrightarrow>
      p_vout p = map pushedOutput (filter addressBearing (rawOutputs node t)) \<and>
      p_total p = sum_list (map smallestUnits (filter addressBearing (rawOutputs node t))) \<and>
      p_total p = sum_list (map amount (p_vout p))"
    using getTransactionById_pending[of conn node t p] by (simp add: sum_pushed)
  have skip1: "\<not> addressBearing out \<longrightarrow>
        mempoolOutputs (outs @ out # outs') acc = mempoolOutputs (outs @ outs') acc"
    by (cases acc) (simp add: mempoolOutputs_eq)
  have skip2: "scriptPubKey out \<noteq> None \<and> \<not> addressBearing out \<longrightarrow>
        detailOutputs (outs @ out # outs') acc = detailOutputs (outs @ outs') acc"
    using detailOutputs_skip[of out outs outs' acc] by blast
  from listed detail skip1 skip2 show ?thesis by blast
qed

text \<open>
  In the second example node the raw transaction \<open>m1\<close> has an output to \<open>X\<close> and an
  output without address: both views list the output to \<open>X\<close> only, with total 500000000,
  and both loops end as they do on the output to \<open>X\<close> alone.
\<close>

theorem outputs_without_address_excluded_witness:
  "rawOutputs example_node_bare ''m1'' = [example_output, example_bare_output]
   \<and> addressBearing example_output \<and> \<not> addressBearing example_bare_output
   \<and> (\<exists>view e. getMempoolTransactions (Inr example_db) example_node_bare 5000 = Inr view \<and>
         e \<in> set (mv_transactions view) \<and> e_txid e = ''m1'' \<and>
         e_vout e = [\<lparr>addresses = ''X'', amount = 500000000\<rparr>] \<and> e_total e = 500000000)
   \<and> (\<exists>p. getTransactionById (Inr example_db) example_node_bare ''m1'' = Inr (Some (Pending p)) \<and>
         p_vout p = [\<lparr>addresses = ''X'', amount = 500000000\<rparr>] \<and> p_total p = 500000000)
   \<and> mempoolOutputs [example_output, example_bare_output] ([], 0)
       = mempoolOutputs [example_output] ([], 0)
   \<and> detailOutputs [example_output, example_bare_output] ([], 0)
       = detailOutputs [example_output] ([], 0)"
proof -
  define e where "e =
     \<lparr>e_txid = ''m1'', e_size = 200, e_time = 1000, e_fee = 0,
      e_vin = [\<lparr>addresses = ''coinbase'', amount = 0\<rparr>],
      e_vout = [\<lparr>addresses = ''X'', amount = 500000000\<rparr>],
      e_total = 500000000, e_value = 25 / 9\<rparr>"
  define view where "view =
     \<lparr>mv_transactions = [e], mv_stats = \<lparr>st_size = 0, st_bytes = 0, st_usage = 0\<rparr>\<rparr>"
  define p where "p =
     \<lparr>p_txid = ''m1'', p_timestamp = 1000,
      p_vin = [\<lparr>addresses = ''coinbase'', amount = 0\<rparr>],
      p_vout = [\<lparr>addresses = ''X'', amount = 500000000\<rparr>],
      p_total = 500000000, isPending = True\<rparr>"
  have run: "getMempoolTransactions (Inr example_db) example_node_bare 5000 = Inr view"
    unfolding view_def e_def by code_simp
  have det: "getTransactionById (Inr example_db) example_node_bare ''m1'' = Inr (Some (Pending p))"
    unfolding p_def by code_simp
  have mem: "e \<in> set (mv_transactions view)" by (simp add: view_def)
  have id: "e_txid e = ''m1''" by (simp add: e_def)
  have raw: "rawOutputs example_node_bare ''m1'' = [example_output, example_bare_output]"
    by code_simp
  have ab: "addressBearing example_output" "\<not> addressBearing example_bare_output"
    by code_simp+
  have spk: "list_all (\<lambda>out. scriptPubKey out \<noteq> None) (rawOutputs example_node_bare ''m1'')"
    unfolding raw by (simp add: example_output_def example_bare_output_def)
  have pushed: "map pushedOutput (filter addressBearing [example_output, example_bare_output])
                  = [\<lparr>addresses = ''X'', amount = 500000000\<rparr>]"
    by code_simp
  have units: "sum_list (map smallestUnits (filter addressBearing [example_output, example_bare_output]))
                  = 500000000"
    by code_simp
  note th = outputs_without_address_excluded[of "Inr example_db" example_node_bare 5000 view e
      "''m1''" p example_bare_output "[example_output]" "[]" "([], 0)"]
  have bare: "scriptPubKey example_bare_output \<noteq> None"
    by (simp add: example_bare_output_def)
  from th ab(2) bare
  have skip: "mempoolOutputs ([example_output] @ example_bare_output # []) ([], 0)
                = mempoolOutputs ([example_output] @ []) ([], 0)"
    "detailOutputs ([example_output] @ example_bare_output # []) ([], 0)
                = detailOutputs ([example_output] @ []) ([], 0)"
    by blast+
  from th run mem det spk
  have "e_vout e = map pushedOutput (filter addressBearing (rawOutputs example_node_bare (e_txid e)))"
    "e_total e = sum_list (map smallestUnits (filter addressBearing (rawOutputs example_node_bare (e_txid e))))"
    "p_vout p = map pushedOutput (filter addressBearing (rawOutputs example_node_bare ''m1''))"
    "p_total p = sum_list (map smallestUnits (filter addressBearing (rawOutputs example_node_bare ''m1'')))"
    by blast+
  then have res: "e_vout e = [\<lparr>addresses = ''X'', amount = 500000000\<rparr>]" "e_total e = 500000000"
    "p_vout p = [\<lparr>addresses = ''X'', amount = 500000000\<rparr>]" "p_total p = 500000000"
    unfolding id raw pushed units by simp_all
  from run mem id res(1,2)
  have a: "\<exists>view e. getMempoolTransactions (Inr example_db) example_node_bare 5000 = Inr view \<and>
         e \<in> set (mv_transactions view) \<and> e_txid e = ''m1'' \<and>
         e_vout e = [\<lparr>addresses = ''X'', amount = 500000000\<rparr>] \<and> e_total e = 500000000"
    by blast
  from det res(3,4)
  have b: "\<exists>p. getTransactionById (Inr example_db) example_node_bare ''m1'' = Inr (Some (Pending p)) \<and>
         p_vout p = [\<lparr>addresses = ''X'', amount = 500000000\<rparr>] \<and> p_total p = 500000000"
    by blast
  from skip have c: "mempoolOutputs [example_output, example_bare_output] ([], 0)
       = mempoolOutputs [example_output] ([], 0)"
    "detailOutputs [example_output, example_bare_output] ([], 0)
       = detailOutputs [example_output] ([], 0)"
    by simp_all
  from raw ab a b c show ?thesis by blast
qed

end
